theory Spec2Isabelle
  imports Main "HOL-Library.Word"
begin

section \<open>Strings and byte slices\<close>

text \<open>
  A Go \<^verbatim>\<open>string\<close> and a Go \<^verbatim>\<open>[]byte\<close> are both sequences of bytes; both are
  modelled as lists of 8-bit characters.
\<close>

type_synonym bytes = "char list"

text \<open>\<^verbatim>\<open>strings.Join(elems, sep)\<close>.\<close>

fun Join :: "string list \<Rightarrow> string \<Rightarrow> string" where
  "Join [] sep = []"
| "Join [x] sep = x"
| "Join (x # y # ys) sep = x @ sep @ Join (y # ys) sep"

text \<open>\<^verbatim>\<open>bytes.Repeat(b, count)\<close> for a non-negative count.\<close>

definition Repeat :: "bytes \<Rightarrow> nat \<Rightarrow> bytes" where
  "Repeat b count = concat (replicate count b)"

text \<open>\<^verbatim>\<open>bytes.HasPrefix(s, prefix)\<close>.\<close>

definition HasPrefix :: "bytes \<Rightarrow> bytes \<Rightarrow> bool" where
  "HasPrefix s p = (length p \<le> length s \<and> take (length p) s = p)"

text \<open>
  \<^verbatim>\<open>bytes.Index(s, sep)\<close>: the index of the first instance of \<open>sep\<close> in \<open>s\<close>, or
  \<open>-1\<close> if \<open>sep\<close> is not present. \<open>index_from\<close> is the left-to-right scan.
\<close>

fun index_from :: "bytes \<Rightarrow> bytes \<Rightarrow> nat option" where
  "index_from [] sep = (if sep = [] then Some 0 else None)"
| "index_from (c # cs) sep =
     (if HasPrefix (c # cs) sep then Some 0 else map_option Suc (index_from cs sep))"

definition Index :: "bytes \<Rightarrow> bytes \<Rightarrow> int" where
  "Index s sep = (case index_from s sep of None \<Rightarrow> - 1 | Some i \<Rightarrow> int i)"

text \<open>
  The built-in \<^verbatim>\<open>copy(dst, src)\<close>: the first \<open>min (len dst) (len src)\<close> bytes of
  \<open>dst\<close> are overwritten with those of \<open>src\<close>; the result is the new \<open>dst\<close>.
\<close>

definition copy_bytes :: "bytes \<Rightarrow> bytes \<Rightarrow> bytes" where
  "copy_bytes dst src = take (length dst) src @ drop (length src) dst"

text \<open>
  Occurrences of a separator, stated independently of the scan: \<open>sep\<close> occurs in \<open>s\<close>
  at offset \<open>i\<close>, and \<open>i\<close> is the least such offset.
\<close>

definition occurs_at :: "bytes \<Rightarrow> bytes \<Rightarrow> nat \<Rightarrow> bool" where
  "occurs_at sep s i = (i + length sep \<le> length s \<and> take (length sep) (drop i s) = sep)"

definition first_at :: "bytes \<Rightarrow> bytes \<Rightarrow> nat \<Rightarrow> bool" where
  "first_at sep s i = (occurs_at sep s i \<and> (\<forall>j \<in> set [0..<i]. \<not> occurs_at sep s j))"

definition absent :: "bytes \<Rightarrow> bytes \<Rightarrow> bool" where
  "absent sep s = (\<forall>j \<in> set [0..<Suc (length s)]. \<not> occurs_at sep s j)"

text \<open>\<^verbatim>\<open>strconv.Itoa\<close>, and \<^verbatim>\<open>%d\<close> of \<^verbatim>\<open>fmt\<close>: the decimal digits, with a minus sign.\<close>

fun dec_digits :: "nat \<Rightarrow> string" where
  "dec_digits n =
     (if n < 10 then [''0123456789'' ! n]
      else dec_digits (n div 10) @ [''0123456789'' ! (n mod 10)])"

declare dec_digits.simps [simp del]

definition Itoa :: "int \<Rightarrow> string" where
  "Itoa i = (if i < 0 then ''-'' @ dec_digits (nat (- i)) else dec_digits (nat i))"

text \<open>
  \<^verbatim>\<open>net.JoinHostPort(host, port)\<close>: a host that contains a colon is taken to be a literal
  IPv6 address and is put in square brackets.
\<close>

definition JoinHostPort :: "string \<Rightarrow> string \<Rightarrow> string" where
  "JoinHostPort host port =
     (if CHR '':'' \<in> set host then ''['' @ host @ '']:'' @ port else host @ '':'' @ port)"

text \<open>
  \<^verbatim>\<open>strings.Fields(s)\<close> splits \<open>s\<close> around each run of white space characters, as
  defined by \<^verbatim>\<open>unicode.IsSpace\<close>, and returns the non-empty pieces. \<open>space_width\<close> is
  the number of bytes of the white space character at the head of a string (its UTF-8
  encoding), or \<open>0\<close> when the string does not start with one. White space is
  U+0009..U+000D, U+0020, U+0085, U+00A0, U+1680, U+2000..U+200A, U+2028, U+2029, U+202F,
  U+205F and U+3000.
\<close>

fun space_width :: "string \<Rightarrow> nat" where
  "space_width [] = 0"
| "space_width (c # cs) =
     (if c \<in> {CHR 0x09, CHR 0x0A, CHR 0x0B, CHR 0x0C, CHR 0x0D, CHR 0x20} then 1
      else if c = CHR 0xC2 \<and> take 1 cs \<in> {[CHR 0x85], [CHR 0xA0]} then 2
      else if c = CHR 0xE1 \<and> take 2 cs = [CHR 0x9A, CHR 0x80] then 3
      else if c = CHR 0xE2 \<and> take 1 cs = [CHR 0x80] \<and>
              take 1 (drop 1 cs) \<in> {[CHR 0x80], [CHR 0x81], [CHR 0x82], [CHR 0x83], [CHR 0x84],
                 [CHR 0x85], [CHR 0x86], [CHR 0x87], [CHR 0x88], [CHR 0x89], [CHR 0x8A],
                 [CHR 0xA8], [CHR 0xA9], [CHR 0xAF]} then 3
      else if c = CHR 0xE2 \<and> take 2 cs = [CHR 0x81, CHR 0x9F] then 3
      else if c = CHR 0xE3 \<and> take 2 cs = [CHR 0x80, CHR 0x80] then 3
      else 0)"

text \<open>
  \<open>fields_scan skip cur s\<close>: \<open>skip\<close> bytes of a white space character are still to be
  passed over, \<open>cur\<close> is the field collected so far.
\<close>

fun fields_scan :: "nat \<Rightarrow> string \<Rightarrow> string \<Rightarrow> string list" where
  "fields_scan skip cur [] = (if cur = [] then [] else [cur])"
| "fields_scan (Suc skip) cur (c # cs) = fields_scan skip cur cs"
| "fields_scan 0 cur (c # cs) =
     (case space_width (c # cs) of
        0 \<Rightarrow> fields_scan 0 (cur @ [c]) cs
      | Suc skip \<Rightarrow> (if cur = [] then [] else [cur]) @ fields_scan skip [] cs)"

definition Fields :: "string \<Rightarrow> string list" where
  "Fields s = fields_scan 0 [] s"

section \<open>Errors\<close>

text \<open>
  A Go \<^verbatim>\<open>error\<close> that is only ever looked at through its message: \<open>Errorf m\<close> is the
  error whose \<^verbatim>\<open>Error()\<close> text is \<open>m\<close>. \<^verbatim>\<open>fmt.Errorf("p: %w", err)\<close> is
  \<open>Errorf (p @ '': '' @ Error err)\<close>.
\<close>

datatype error = Errorf string

fun Error :: "error \<Rightarrow> string" where
  "Error (Errorf m) = m"

section \<open>The file system\<close>

text \<open>
  The part of the file system the program touches: the contents of the regular files
  by path, and the outcome of the calls that can fail for reasons outside the program.
  \<open>mkdir_fails d\<close> says that \<^verbatim>\<open>os.MkdirAll(filepath.Dir(d), 0o755)\<close> returns an error,
  \<open>write_fails d\<close> that \<^verbatim>\<open>os.WriteFile(d, _, 0o644)\<close> does, and \<open>create_fails d\<close> that
  \<^verbatim>\<open>os.Create(d)\<close> does. A path without contents cannot be read. What a failed write
  leaves behind is not modelled: the model keeps the old contents.
\<close>

record filesystem =
  files :: "string \<rightharpoonup> bytes"
  mkdir_fails :: "string \<Rightarrow> bool"
  write_fails :: "string \<Rightarrow> bool"
  create_fails :: "string \<Rightarrow> bool"

section \<open>Patching the iPXE binaries\<close>

text \<open>
  The errors of \<^verbatim>\<open>patch.go\<close>, one constructor per \<^verbatim>\<open>return\<close> of an error, with the
  operands of the message.
\<close>

datatype patch_error =
    ReadFileError string
  | PlaceholderStartNotFound string
  | PlaceholderEndNotFound string
  | PlaceholderEndBeforeStart
  | ScriptTooLarge nat int
  | MkdirAllError string
  | WriteFileError string
  | CreateError string
  | ZbinExitError int string
  | ZbinRunError string
  | FailedToPatch string patch_error
  | FailedToCompress string patch_error
  | FailedToBuildInitScript error

definition placeholderStart :: bytes where
  "placeholderStart = ''# *PLACEHOLDER START*''"

definition placeholderEnd :: bytes where
  "placeholderEnd = ''# *PLACEHOLDER END*''"

definition newline :: char where
  "newline = CHR 0x0A"

text \<open>
  \<^verbatim>\<open>patchScript(source, destination, script)\<close>. The result is the returned error
  (\<open>None\<close> for \<^verbatim>\<open>nil\<close>) and the file system afterwards. \<open>start\<close>, \<open>end0\<close>, \<open>end1\<close>
  and \<open>len\<close> are Go \<^verbatim>\<open>int\<close>s: \<open>end0\<close> and \<open>end1\<close> are the variable \<^verbatim>\<open>end\<close> before
  and after \<^verbatim>\<open>end += len(placeholderEnd)\<close>, and \<open>len\<close> is the variable \<^verbatim>\<open>length\<close>.
  \<^verbatim>\<open>contents[start:end]\<close> is the slice of \<open>end - start\<close> bytes from offset \<open>start\<close>; its
  bounds are in range whenever the slice expression is reached, since both markers were
  found and the end marker lies inside the contents. \<^verbatim>\<open>append(script, ...)\<close> may write
  the padding into spare capacity behind the caller's slice, but never into the bytes of
  the caller's slice, so the script is passed by value here.
\<close>

definition patchScript ::
  "filesystem \<Rightarrow> string \<Rightarrow> string \<Rightarrow> bytes \<Rightarrow> patch_error option \<times> filesystem" where
  "patchScript fs source destination script =
     (case files fs source of
        None \<Rightarrow> (Some (ReadFileError source), fs)
      | Some contents \<Rightarrow>
          let start = Index contents placeholderStart in
          if start = - 1 then (Some (PlaceholderStartNotFound source), fs)
          else
            let end0 = Index contents placeholderEnd in
            if end0 = - 1 then (Some (PlaceholderEndNotFound source), fs)
            else if end0 < start then (Some PlaceholderEndBeforeStart, fs)
            else
              let end1 = end0 + int (length placeholderEnd);
                  len = end1 - start
              in
                if int (length script) > len
                then (Some (ScriptTooLarge (length script) len), fs)
                else
                  let script1 = script @ Repeat [newline] (nat (len - int (length script)));
                      contents1 =
                        take (nat start) contents
                        @ copy_bytes (take (nat (end1 - start)) (drop (nat start) contents)) script1
                        @ drop (nat end1) contents
                  in
                    if mkdir_fails fs destination
                    then (Some (MkdirAllError destination), fs)
                    else if write_fails fs destination
                    then (Some (WriteFileError destination), fs)
                    else (None, fs\<lparr>files := (files fs)(destination \<mapsto> contents1)\<rparr>))"

text \<open>
  The intended result of a patch, in the words of the specification: the source with the
  range \<open>[start, start + region)\<close> replaced by the script padded on the right with
  newline bytes to exactly \<open>region\<close> bytes.
\<close>

definition patched :: "bytes \<Rightarrow> nat \<Rightarrow> nat \<Rightarrow> bytes \<Rightarrow> bytes" where
  "patched contents start region script =
     take start contents @ script @ replicate (region - length script) newline
       @ drop (start + region) contents"

text \<open>
  The package \<^verbatim>\<open>internal/server/constants\<close> is not among the sources. \<open>IPXEPath\<close>
  (the directory of the prebuilt iPXE binaries) and
  \<open>TFTPPath\<close> (the directory served over TFTP) are parameters of the model.
\<close>

record constants =
  IPXEPath :: string
  TFTPPath :: string

text \<open>
  Modelled from the spec: \<^verbatim>\<open>constants.IPXEURLPath\<close> is missing from the sources; the
  specification serves the scripts under \<^verbatim>\<open>/ipxe/{script}\<close> and lets the embedded script
  chain to \<^verbatim>\<open>http://{endpoint}:{port}/ipxe/boot.ipxe\<close>.
\<close>

definition IPXEURLPath :: string where
  "IPXEURLPath = ''ipxe''"

definition initScriptName :: string where
  "initScriptName = ''init.ipxe''"

definition bootScriptName :: string where
  "bootScriptName = ''boot.ipxe''"

text \<open>
  \<open>bootTemplate\<close> is the text the template \<^verbatim>\<open>"iPXE embedded"\<close> produces: a comment action
  \<^verbatim>\<open>{{/* ... */}}\<close> produces nothing (the rest of its line stays), and the three fields
  are printed as they are. \<open>line indent text\<close> is one line of the template, indented by
  tabs.
\<close>

definition line :: "nat \<Rightarrow> string \<Rightarrow> string" where
  "line indent text = replicate indent (CHR 0x09) @ text @ [newline]"

definition bootTemplate :: "string \<Rightarrow> string \<Rightarrow> string \<Rightarrow> bytes" where
  "bootTemplate Endpoint Port ScriptPath =
     concat [
        line 0 ''#!ipxe'',
        line 0 ''prompt --key 0x02 --timeout 2000 Press Ctrl-B for the iPXE command line... && shell ||'',
        line 0 '''',
        line 0 '''',
        line 0 ''ifstat'',
        line 0 '''',
        line 0 '''',
        line 0 ''set attempts:int32 10'',
        line 0 ''set x:int32 0'',
        line 0 '''',
        line 0 '':retry_loop'',
        line 0 '''',
        line 1 ''set idx:int32 0'',
        line 0 '''',
        line 1 '':loop'',
        line 2 '''',
        line 2 ''isset ${net${idx}/mac} || goto exhausted'',
        line 0 '''',
        line 2 ''ifclose'',
        line 2 ''iflinkwait --timeout 5000 net${idx} || goto next_iface'',
        line 2 ''dhcp net${idx} || goto next_iface'',
        line 2 ''goto boot'',
        line 0 '''',
        line 1 '':next_iface'',
        line 2 ''inc idx && goto loop'',
        line 0 '''',
        line 1 '':boot'',
        line 2 '''',
        line 2 ''route'',
        line 0 '''',
        line 2 (''chain --replace http://'' @ Endpoint @ '':'' @ Port @ ''/'' @ ScriptPath @ ''?uuid=${uuid}&mac=${net${idx}/mac:hexhyp}&domain=${domain}&hostname=${hostname}&serial=${serial}&arch=${buildarch} || goto next_iface''),
        line 0 '''',
        line 0 '':exhausted'',
        line 1 ''echo'',
        line 1 ''echo Failed to iPXE boot successfully via all interfaces'',
        line 0 '''',
        line 1 ''iseq ${x} ${attempts} && goto fail ||'',
        line 0 '''',
        line 1 ''echo Retrying...'',
        line 1 ''echo'',
        line 0 '''',
        line 1 ''inc x'',
        line 1 ''goto retry_loop'',
        line 0 '''',
        line 0 '':fail'',
        line 1 ''echo'',
        line 1 ''echo Failed to get a valid response after ${attempts} attempts'',
        line 1 ''echo'',
        line 0 '''',
        line 1 ''echo Rebooting in 5 seconds...'',
        line 1 ''sleep 5'',
        line 1 ''reboot''
     ]"

text \<open>
  \<^verbatim>\<open>buildInitScript(endpoint, port)\<close>. Executing the template into a buffer has no way
  to fail for a string and an integer field, so the error branch of the source is never
  taken.
\<close>

definition buildInitScript :: "string \<Rightarrow> int \<Rightarrow> error + bytes" where
  "buildInitScript endpoint port =
     Inr (bootTemplate endpoint (Itoa port) (IPXEURLPath @ ''/'' @ bootScriptName))"

text \<open>
  The external program \<^verbatim>\<open>/bin/zbin\<close>, given the contents of its two input files
  (\<open>None\<close> for a file that cannot be read): it either exits with status 0 having written
  the compressed image to its standard output, or exits with another status, or cannot be
  started. In the last two cases the bytes written so far are part of the outcome.
\<close>

datatype zbin_result =
    ZbinDone bytes
  | ZbinExit int bytes
  | ZbinNotRun string bytes

type_synonym zbin = "bytes option \<Rightarrow> bytes option \<Rightarrow> zbin_result"

text \<open>
  \<^verbatim>\<open>compressKPXE(binFile, infoFile, outFile, logger)\<close>. \<^verbatim>\<open>os.Create\<close> truncates the
  output file before the program runs. \<^verbatim>\<open>cmd.Run\<close> does not collect the standard error
  stream, so the \<^verbatim>\<open>Stderr\<close> of the exit error is empty.
\<close>

definition compressKPXE ::
  "zbin \<Rightarrow> filesystem \<Rightarrow> string \<Rightarrow> string \<Rightarrow> string \<Rightarrow> patch_error option \<times> filesystem" where
  "compressKPXE zb fs binFile infoFile outFile =
     (if create_fails fs outFile then (Some (CreateError outFile), fs)
      else
        let fs1 = fs\<lparr>files := (files fs)(outFile \<mapsto> [])\<rparr> in
        case zb (files fs1 binFile) (files fs1 infoFile) of
          ZbinDone out \<Rightarrow> (None, fs1\<lparr>files := (files fs1)(outFile \<mapsto> out)\<rparr>)
        | ZbinExit code out \<Rightarrow>
            (Some (ZbinExitError code []), fs1\<lparr>files := (files fs1)(outFile \<mapsto> out)\<rparr>)
        | ZbinNotRun msg out \<Rightarrow>
            (Some (ZbinRunError msg), fs1\<lparr>files := (files fs1)(outFile \<mapsto> out)\<rparr>))"

text \<open>
  \<^verbatim>\<open>patchBinaries(initScript, logger)\<close>. \<open>patchEFI\<close> is the loop over the names
  \<^verbatim>\<open>"ipxe"\<close> and \<^verbatim>\<open>"snp"\<close>: the amd64 binary, then the arm64 binary of each name.
  The paths are formatted with \<^verbatim>\<open>fmt.Sprintf\<close> from the constant directories, which are
  taken to contain no formatting verb.
\<close>

fun patchEFI ::
  "constants \<Rightarrow> filesystem \<Rightarrow> bytes \<Rightarrow> string list \<Rightarrow> patch_error option \<times> filesystem" where
  "patchEFI k fs initScript [] = (None, fs)"
| "patchEFI k fs initScript (name # names) =
     (case patchScript fs (IPXEPath k @ ''/amd64/'' @ name @ ''.efi'')
             (TFTPPath k @ ''/'' @ name @ ''.efi'') initScript of
        (Some err, fs1) \<Rightarrow> (Some (FailedToPatch name err), fs1)
      | (None, fs1) \<Rightarrow>
          (case patchScript fs1 (IPXEPath k @ ''/arm64/'' @ name @ ''.efi'')
                  (TFTPPath k @ ''/'' @ name @ ''-arm64.efi'') initScript of
             (Some err, fs2) \<Rightarrow> (Some (FailedToPatch name err), fs2)
           | (None, fs2) \<Rightarrow> patchEFI k fs2 initScript names))"

definition patchBinaries ::
  "constants \<Rightarrow> zbin \<Rightarrow> filesystem \<Rightarrow> bytes \<Rightarrow> patch_error option \<times> filesystem" where
  "patchBinaries k zb fs initScript =
     (case patchEFI k fs initScript [''ipxe'', ''snp''] of
        (Some err, fs1) \<Rightarrow> (Some err, fs1)
      | (None, fs1) \<Rightarrow>
          (case patchScript fs1 (IPXEPath k @ ''/amd64/kpxe/undionly.kpxe.bin'')
                  (IPXEPath k @ ''/amd64/kpxe/undionly.kpxe.bin.patched'') initScript of
             (Some err, fs2) \<Rightarrow> (Some (FailedToPatch ''undionly.kpxe.bin'' err), fs2)
           | (None, fs2) \<Rightarrow>
               (case compressKPXE zb fs2 (IPXEPath k @ ''/amd64/kpxe/undionly.kpxe.bin.patched'')
                       (IPXEPath k @ ''/amd64/kpxe/undionly.kpxe.zinfo'')
                       (TFTPPath k @ ''/undionly.kpxe'') of
                  (Some err, fs3) \<Rightarrow> (Some (FailedToCompress ''undionly.kpxe'' err), fs3)
                | (None, fs3) \<Rightarrow>
                    (case compressKPXE zb fs3
                            (IPXEPath k @ ''/amd64/kpxe/undionly.kpxe.bin.patched'')
                            (IPXEPath k @ ''/amd64/kpxe/undionly.kpxe.zinfo'')
                            (TFTPPath k @ ''/undionly.kpxe.0'') of
                       (Some err, fs4) \<Rightarrow> (Some (FailedToCompress ''undionly.kpxe.0'' err), fs4)
                     | (None, fs4) \<Rightarrow> (None, fs4)))))"

section \<open>The image factory client\<close>

text \<open>
  The schematic sent to the image factory: \<^verbatim>\<open>Customization.ExtraKernelArgs\<close> and
  \<^verbatim>\<open>Customization.SystemExtensions.OfficialExtensions\<close>.
\<close>

datatype Schematic = Schematic (ExtraKernelArgs_of: "string list") (OfficialExtensions_of: "string list")

text \<open>
  The two calls into the image factory library: \<^verbatim>\<open>sch.Marshal()\<close>, which is local, and
  \<^verbatim>\<open>factoryClient.SchematicCreate(ctx, sch)\<close>, which is the request to the upstream
  service and is bounded by the ten second timeout of the context (a timeout is one of
  its errors).
\<close>

record factory =
  Marshal :: "Schematic \<Rightarrow> error + bytes"
  SchematicCreate :: "Schematic \<Rightarrow> error + string"

record Client =
  pxeBaseURL :: string
  secureBootEnabled :: bool

text \<open>
  \<^verbatim>\<open>(*Client).SchematicIPXEURL(ctx, talosVersion, arch, extensions, extraKernelArgs)\<close>.
  The second component of the result lists the schematics sent upstream with
  \<^verbatim>\<open>SchematicCreate\<close> during the call.
\<close>

definition SchematicIPXEURL ::
  "factory \<Rightarrow> Client \<Rightarrow> string \<Rightarrow> string \<Rightarrow> string list \<Rightarrow> string list
     \<Rightarrow> (error + string) \<times> Schematic list" where
  "SchematicIPXEURL f c talosVersion arch extensions extraKernelArgs =
     (if talosVersion = [] then (Inl (Errorf ''talosVersion is required''), [])
      else
        let sch = Schematic extraKernelArgs extensions in
        case Marshal f sch of
          Inl err \<Rightarrow> (Inl (Errorf (''failed to marshal schematic: '' @ Error err)), [])
        | Inr marshaled \<Rightarrow>
            (case SchematicCreate f sch of
               Inl err \<Rightarrow> (Inl (Errorf (''failed to create schematic: '' @ Error err)), [sch])
             | Inr schematicID \<Rightarrow>
                 let ipxeURL = pxeBaseURL c @ ''/pxe/'' @ schematicID @ ''/'' @ talosVersion
                                 @ ''/metal-'' @ arch;
                     ipxeURL = (if secureBootEnabled c then ipxeURL @ ''-secureboot'' else ipxeURL)
                 in (Inr ipxeURL, [sch])))"

section \<open>The server options\<close>

text \<open>
  \<^verbatim>\<open>machineconfig.Options\<close> and the \<^verbatim>\<open>Options\<close> of the server that \<^verbatim>\<open>Run\<close> reads.
  The field \<open>ExtraKernelArgs\<close> is the string that the iPXE handler takes.
\<close>

record MachineConfigOptions =
  OmniSiderolinkAPIURL :: string
  OmniJoinToken :: string
  OmniEventsPort :: int
  OmniKmsgLogPort :: int

record Options =
  ImageFactoryBaseURL :: string
  ImageFactoryPXEBaseURL :: string
  APIListenAddress :: string
  APIAdvertiseAddress :: string
  DHCPProxyIfaceOrIP :: string
  TalosVersion :: string
  Extensions :: "string list"
  ExtraKernelArgs :: string
  MachineConfig :: MachineConfigOptions
  APIPort :: int
  DisableDHCPProxy :: bool
  SecureBootEnabled :: bool

section \<open>The iPXE HTTP handler\<close>

definition archArm64 :: string where
  "archArm64 = ''arm64''"

definition archAmd64 :: string where
  "archAmd64 = ''amd64''"

text \<open>
  \<^verbatim>\<open>constants.KernelParamConfig\<close> of the Talos machinery library, the name of the kernel
  parameter that carries the URL of the machine configuration.
\<close>

definition KernelParamConfig :: string where
  "KernelParamConfig = ''talos.config''"

text \<open>
  The interface \<^verbatim>\<open>ImageFactoryClient\<close>: its one method, as the function from
  \<open>talosVersion\<close>, \<open>arch\<close>, \<open>extensions\<close> and \<open>extraKernelArgs\<close> to the result.
\<close>

type_synonym ImageFactoryClient =
  "string \<Rightarrow> string \<Rightarrow> string list \<Rightarrow> string list \<Rightarrow> error + string"

text \<open>One call of the method, recorded with its arguments.\<close>

record factory_call =
  call_talosVersion :: string
  call_arch :: string
  call_extensions :: "string list"
  call_extraKernelArgs :: "string list"

record HandlerOptions =
  APIAdvertiseAddress :: string
  TalosVersion :: string
  ExtraKernelArgs :: string
  Extensions :: "string list"
  APIPort :: int

record Handler =
  imageFactoryClient :: ImageFactoryClient
  kernelArgs :: "string list"
  initScript :: bytes
  options :: HandlerOptions

text \<open>
  The request, as far as the handler reads it: the path value \<^verbatim>\<open>script\<close> and
  \<^verbatim>\<open>req.URL.Query().Get\<close>, which is the empty string for a key without a value.
\<close>

record Request =
  PathValue_script :: string
  Query_Get :: "string \<Rightarrow> string"

text \<open>
  The \<^verbatim>\<open>http.ResponseWriter\<close>, as the response it has produced so far: the status code
  once the header has been written, the header fields set by the handler before that,
  and the body. \<^verbatim>\<open>WriteHeader\<close> has an effect only the first time; \<^verbatim>\<open>Write\<close> writes
  the header with status 200 if it has not been written yet. Header fields that the
  server adds by itself are not modelled.
\<close>

record ResponseWriter =
  status :: "nat option"
  header :: "string \<rightharpoonup> string"
  body :: bytes

definition newResponseWriter :: ResponseWriter where
  "newResponseWriter = \<lparr>status = None, header = Map.empty, body = []\<rparr>"

definition WriteHeader :: "nat \<Rightarrow> ResponseWriter \<Rightarrow> ResponseWriter" where
  "WriteHeader statusCode w = (if status w = None then w\<lparr>status := Some statusCode\<rparr> else w)"

definition Header_Set :: "string \<Rightarrow> string \<Rightarrow> ResponseWriter \<Rightarrow> ResponseWriter" where
  "Header_Set key v w = (if status w = None then w\<lparr>header := (header w)(key \<mapsto> v)\<rparr> else w)"

definition Write :: "bytes \<Rightarrow> ResponseWriter \<Rightarrow> ResponseWriter" where
  "Write b w = (let w1 = WriteHeader 200 w in w1\<lparr>body := body w1 @ b\<rparr>)"

definition StatusOK :: nat where "StatusOK = 200"
definition StatusNotFound :: nat where "StatusNotFound = 404"
definition StatusInternalServerError :: nat where "StatusInternalServerError = 500"

text \<open>\<^verbatim>\<open>fmt.Sprintf(ipxeScriptTemplateFormat, ipxeURL)\<close>.\<close>

definition ipxeScriptTemplateFormat :: "string \<Rightarrow> string" where
  "ipxeScriptTemplateFormat ipxeURL =
     ''#!ipxe'' @ [newline] @ ''chain --replace '' @ ipxeURL @ [newline]"

definition consoleKernelArgs :: "string \<Rightarrow> string list" where
  "consoleKernelArgs arch =
     (if arch = archArm64 then [''console=tty0'', ''console=ttyAMA0'']
      else [''console=tty0'', ''console=ttyS0''])"

definition handleInitScript :: "Handler \<Rightarrow> ResponseWriter \<Rightarrow> ResponseWriter" where
  "handleInitScript handler w = Write (initScript handler) (Header_Set ''Content-Type'' ''text/plain'' w)"

text \<open>
  \<^verbatim>\<open>bootViaFactoryIPXEScript\<close> returns \<open>(body, statusCode, err)\<close>; the model adds the
  call made to the image factory client.
\<close>

definition bootViaFactoryIPXEScript ::
  "Handler \<Rightarrow> string \<Rightarrow> string \<Rightarrow> string list \<Rightarrow> string list
     \<Rightarrow> (string \<times> nat \<times> error option) \<times> factory_call list" where
  "bootViaFactoryIPXEScript handler talosVersion arch extensions kernelArgs1 =
     (let call = \<lparr>call_talosVersion = talosVersion, call_arch = arch,
                   call_extensions = extensions, call_extraKernelArgs = kernelArgs1\<rparr>
      in case imageFactoryClient handler talosVersion arch extensions kernelArgs1 of
           Inl err \<Rightarrow>
             (([], StatusInternalServerError,
               Some (Errorf (''failed to get schematic IPXE URL: '' @ Error err))), [call])
         | Inr ipxeURL \<Rightarrow> ((ipxeScriptTemplateFormat ipxeURL, StatusOK, None), [call]))"

text \<open>
  \<^verbatim>\<open>(*Handler).ServeHTTP(w, req)\<close>: the response written, and the calls made to the image
  factory client while serving the request.
\<close>

definition ServeHTTP ::
  "Handler \<Rightarrow> ResponseWriter \<Rightarrow> Request \<Rightarrow> ResponseWriter \<times> factory_call list" where
  "ServeHTTP handler w req =
     (if PathValue_script req = initScriptName then (handleInitScript handler w, [])
      else if PathValue_script req = bootScriptName then
        let arch = Query_Get req ''arch'';
            arch = (if arch \<noteq> archArm64 then archAmd64 else arch);
            kernelArgs1 = kernelArgs handler @ consoleKernelArgs arch
        in case bootViaFactoryIPXEScript handler (TalosVersion (options handler)) arch
                  (Extensions (options handler)) kernelArgs1 of
             ((body1, statusCode, Some err), calls) \<Rightarrow>
               (Write (''failed to get iPXE script: '' @ Error err)
                  (WriteHeader StatusInternalServerError w), calls)
           | ((body1, statusCode, None), calls) \<Rightarrow>
               (Write body1 (WriteHeader statusCode w), calls)
      else (WriteHeader StatusNotFound w, []))"

text \<open>
  \<^verbatim>\<open>NewHandler(configServerEnabled, imageFactoryClient, options, logger)\<close>: the handler
  or the error, and the file system after the binaries have been patched.
\<close>

definition NewHandler ::
  "constants \<Rightarrow> zbin \<Rightarrow> filesystem \<Rightarrow> bool \<Rightarrow> ImageFactoryClient \<Rightarrow> HandlerOptions
     \<Rightarrow> (patch_error + Handler) \<times> filesystem" where
  "NewHandler k zb fs configServerEnabled client opts =
     (case buildInitScript (APIAdvertiseAddress opts) (APIPort opts) of
        Inl err \<Rightarrow> (Inl (FailedToBuildInitScript err), fs)
      | Inr initScript1 \<Rightarrow>
          (case patchBinaries k zb fs initScript1 of
             (Some err, fs1) \<Rightarrow> (Inl err, fs1)
           | (None, fs1) \<Rightarrow>
               let kernelArgs1 = Fields (ExtraKernelArgs opts);
                   kernelArgs1 =
                     (if configServerEnabled then
                        let apiHostPort = JoinHostPort (APIAdvertiseAddress opts) (Itoa (APIPort opts));
                            talosConfigURL = ''http://'' @ apiHostPort @ ''/config?u=${uuid}''
                        in kernelArgs1 @ [KernelParamConfig @ ''='' @ talosConfigURL]
                      else kernelArgs1)
               in (Inr \<lparr>imageFactoryClient = client, kernelArgs = kernelArgs1,
                         initScript = initScript1, options = opts\<rparr>, fs1)))"

section \<open>The artifacts written at startup\<close>

text \<open>
  The calls of \<^verbatim>\<open>patchScript\<close> made by \<^verbatim>\<open>patchBinaries\<close>, as pairs of source and
  destination, the output files of \<^verbatim>\<open>compressKPXE\<close>, and all the paths involved.
\<close>

definition patch_targets :: "constants \<Rightarrow> (string \<times> string) list" where
  "patch_targets k =
     [(IPXEPath k @ ''/amd64/ipxe.efi'', TFTPPath k @ ''/ipxe.efi''),
      (IPXEPath k @ ''/arm64/ipxe.efi'', TFTPPath k @ ''/ipxe-arm64.efi''),
      (IPXEPath k @ ''/amd64/snp.efi'', TFTPPath k @ ''/snp.efi''),
      (IPXEPath k @ ''/arm64/snp.efi'', TFTPPath k @ ''/snp-arm64.efi''),
      (IPXEPath k @ ''/amd64/kpxe/undionly.kpxe.bin'',
       IPXEPath k @ ''/amd64/kpxe/undionly.kpxe.bin.patched'')]"

definition compress_targets :: "constants \<Rightarrow> string list" where
  "compress_targets k = [TFTPPath k @ ''/undionly.kpxe'', TFTPPath k @ ''/undionly.kpxe.0'']"

definition artifact_paths :: "constants \<Rightarrow> string list" where
  "artifact_paths k =
     map fst (patch_targets k) @ [IPXEPath k @ ''/amd64/kpxe/undionly.kpxe.zinfo'']
     @ map snd (patch_targets k) @ compress_targets k"

text \<open>
  The binary that a successful patch of \<open>contents\<close> with \<open>script\<close> leaves behind: the
  region from the first start marker through the end of the first end marker is replaced
  by the script and its newline padding.
\<close>

definition patch_result :: "bytes \<Rightarrow> bytes \<Rightarrow> bytes option" where
  "patch_result contents script =
     (case (index_from contents placeholderStart, index_from contents placeholderEnd) of
        (Some start, Some e) \<Rightarrow>
          if start \<le> e \<and> length script \<le> e + length placeholderEnd - start
          then Some (patched contents start (e + length placeholderEnd - start) script)
          else None
      | _ \<Rightarrow> None)"

section \<open>Starting the server\<close>

text \<open>
  What \<^verbatim>\<open>Run\<close> obtains from outside the program: the result of \<^verbatim>\<open>ip.RoutableIPs()\<close>,
  of \<^verbatim>\<open>machineconfig.Build\<close> (which renders the document with the Talos library), of
  \<^verbatim>\<open>client.New\<close> of the image factory library, the program \<^verbatim>\<open>zbin\<close>, and the constant
  paths.
\<close>

record environment =
  RoutableIPs :: "error + string list"
  Build :: "MachineConfigOptions \<Rightarrow> error + bytes"
  client_New :: "string \<Rightarrow> error + factory"
  zbin_program :: zbin
  paths :: constants

text \<open>
  \<^verbatim>\<open>(*Server).determineAPIAdvertiseAddress()\<close>. The verb \<^verbatim>\<open>%v\<close> prints a slice of
  strings in square brackets, separated by spaces.
\<close>

definition determineAPIAdvertiseAddress :: "environment \<Rightarrow> Options \<Rightarrow> error + string" where
  "determineAPIAdvertiseAddress env opts =
     (if Options.APIAdvertiseAddress opts \<noteq> [] then Inr (Options.APIAdvertiseAddress opts)
      else
        case RoutableIPs env of
          Inl err \<Rightarrow> Inl (Errorf (''failed to get routable IPs: '' @ Error err))
        | Inr routableIPs \<Rightarrow>
            if length routableIPs \<noteq> 1
            then Inl (Errorf (''expected exactly one routable IP, got ''
                       @ Itoa (int (length routableIPs)) @ '': ''
                       @ ''['' @ Join routableIPs '' '' @ '']''
                       @ ''. specify API advertise address explicitly''))
            else Inr (routableIPs ! 0))"

text \<open>
  The outcome of \<^verbatim>\<open>Run\<close>: it returns an error before any listener is started, or it
  reaches \<^verbatim>\<open>runComponents\<close> with the components to run; from there on its result is the
  result of the concurrently running components, which is outside this model.
\<close>

datatype run_error =
    RunError error
  | FailedToCreateIPXEHandler patch_error

record serving =
  components :: "string list"
  ipxeHandler :: Handler
  configHandler :: "bytes option"
  dhcpProxy :: "(string \<times> int \<times> string) option"

datatype run_result =
    Aborted run_error
  | Serving serving

text \<open>\<^verbatim>\<open>(*Server).Run(ctx)\<close>, up to the call of \<^verbatim>\<open>runComponents\<close>.\<close>

definition Run :: "environment \<Rightarrow> filesystem \<Rightarrow> Options \<Rightarrow> run_result \<times> filesystem" where
  "Run env fs opts =
     (case determineAPIAdvertiseAddress env opts of
        Inl err \<Rightarrow>
          (Aborted (RunError (Errorf (''failed to determine API advertise address: '' @ Error err))),
           fs)
      | Inr apiAdvertiseAddress \<Rightarrow>
          let dhcpProxyIfaceOrIP =
                (if DHCPProxyIfaceOrIP opts = [] then apiAdvertiseAddress
                 else DHCPProxyIfaceOrIP opts);
              configServerEnabled = (OmniSiderolinkAPIURL (MachineConfig opts) \<noteq> [])
          in
            case (if configServerEnabled
                  then (case Build env (MachineConfig opts) of
                          Inl err \<Rightarrow>
                            Inl (Errorf (''failed to build machine config: '' @ Error err))
                        | Inr machineConfig \<Rightarrow> Inr (Some machineConfig))
                  else Inr None) of
              Inl err \<Rightarrow> (Aborted (RunError err), fs)
            | Inr configHandler1 \<Rightarrow>
                (case client_New env (ImageFactoryBaseURL opts) of
                   Inl err \<Rightarrow>
                     (Aborted (RunError
                        (Errorf (''failed to create image factory client: '' @ Error err))), fs)
                 | Inr factoryClient \<Rightarrow>
                     let imageFactoryClient1 =
                           (\<lambda>talosVersion arch extensions extraKernelArgs.
                              fst (SchematicIPXEURL factoryClient
                                     \<lparr>pxeBaseURL = ImageFactoryPXEBaseURL opts,
                                      secureBootEnabled = SecureBootEnabled opts\<rparr>
                                     talosVersion arch extensions extraKernelArgs))
                     in
                       case NewHandler (paths env) (zbin_program env) fs configServerEnabled
                              imageFactoryClient1
                              \<lparr>APIAdvertiseAddress = apiAdvertiseAddress,
                               TalosVersion = Options.TalosVersion opts,
                               ExtraKernelArgs = Options.ExtraKernelArgs opts,
                               Extensions = Options.Extensions opts,
                               APIPort = Options.APIPort opts\<rparr> of
                         (Inl err, fs1) \<Rightarrow> (Aborted (FailedToCreateIPXEHandler err), fs1)
                       | (Inr ipxeHandler1, fs1) \<Rightarrow>
                           (Serving
                              \<lparr>components =
                                 [''server'', ''TFTP server'']
                                 @ (if \<not> DisableDHCPProxy opts then [''DHCP proxy''] else []),
                               ipxeHandler = ipxeHandler1,
                               configHandler = configHandler1,
                               dhcpProxy =
                                 (if \<not> DisableDHCPProxy opts
                                  then Some (apiAdvertiseAddress, Options.APIPort opts,
                                             dhcpProxyIfaceOrIP)
                                  else None)\<rparr>,
                            fs1)))"

section \<open>The DHCP proxy\<close>

text \<open>
  Modelled from the spec: the package \<^verbatim>\<open>internal/server/dhcp\<close> is missing from the
  sources; only the call \<^verbatim>\<open>dhcp.NewProxy(apiAdvertiseAddress, APIPort, dhcpProxyIfaceOrIP,
  logger)\<close> in \<^verbatim>\<open>Run\<close> is there. The definitions of this section follow the
  specification of the DHCP proxy: its per-client decision and the shape of its replies.
\<close>

record proxy =
  proxy_advertise :: string
  proxy_port :: int

datatype message_type =
    DISCOVER
  | OFFER
  | REQUEST
  | DECLINE
  | ACK
  | NAK
  | RELEASE
  | INFORM

text \<open>
  A DHCP packet, as far as the specification speaks of it: the BOOTP fields \<open>xid\<close>,
  \<open>flags\<close>, \<open>chaddr\<close>, \<open>yiaddr\<close>, \<open>siaddr\<close> (next server) and \<open>file\<close> (the boot file
  name, which may also travel as option 67), and the options 93 (client system
  architecture), 77 (user class), 60 (vendor class identifier), 54 (server identifier),
  61 (client identifier) and 97 (UUID/GUID). Addresses are written in dotted decimal.
\<close>

record dhcp_packet =
  msg_type :: message_type
  xid :: "32 word"
  flags :: "16 word"
  chaddr :: "8 word list"
  yiaddr :: string
  siaddr :: string
  bootfile :: string
  client_arch :: "16 word option"
  user_class :: "string option"
  vendor_class :: "string option"
  server_identifier :: "string option"
  client_identifier :: "8 word list option"
  uuid_guid :: "8 word list option"

datatype firmware = BIOS_x86 | EFI_x86_64 | EFI_arm64

text \<open>
  Modelled from the spec: step 1 of the per-client decision. The values 0x0000 and 0x0006
  of option 93 are BIOS/i386, 0x0007 and 0x0009 are EFI x86_64, 0x000b is EFI arm64; any
  other value makes the proxy ignore the packet.
\<close>

definition firmware_of_arch :: "16 word \<Rightarrow> firmware option" where
  "firmware_of_arch a =
     (if a = 0x0000 \<or> a = 0x0006 then Some BIOS_x86
      else if a = 0x0007 \<or> a = 0x0009 then Some EFI_x86_64
      else if a = 0x000b then Some EFI_arm64
      else None)"

text \<open>
  Modelled from the spec: step 2 of the per-client decision, the table of boot file
  names. A client whose user class equals \<^verbatim>\<open>iPXE\<close> gets the URL of the init script,
  any other client the TFTP file name of its firmware.
\<close>

definition boot_filename :: "proxy \<Rightarrow> firmware \<Rightarrow> string option \<Rightarrow> string" where
  "boot_filename p fw uc =
     (if uc = Some ''iPXE''
      then ''http://'' @ proxy_advertise p @ '':'' @ Itoa (proxy_port p) @ ''/ipxe/init.ipxe''
      else case fw of
             BIOS_x86 \<Rightarrow> ''undionly.kpxe''
           | EFI_x86_64 \<Rightarrow> ''ipxe.efi''
           | EFI_arm64 \<Rightarrow> ''ipxe-arm64.efi'')"

text \<open>
  Modelled from the spec: the proxy answers DISCOVER with OFFER and REQUEST with ACK, and
  no other message.
\<close>

definition reply_type :: "message_type \<Rightarrow> message_type option" where
  "reply_type t = (case t of DISCOVER \<Rightarrow> Some OFFER | REQUEST \<Rightarrow> Some ACK | _ \<Rightarrow> None)"

text \<open>
  Modelled from the spec: steps 3 and 4. The reply keeps \<open>xid\<close>, \<open>flags\<close>, \<open>chaddr\<close> and
  the options 61 and 97 of the request, has the advertise address as next server and as
  server identifier, \<^verbatim>\<open>PXEClient\<close> as vendor class identifier, and allocates no
  address. \<open>None\<close> is a packet that is ignored.
\<close>

definition proxy_reply :: "proxy \<Rightarrow> dhcp_packet \<Rightarrow> dhcp_packet option" where
  "proxy_reply p pkt =
     (case reply_type (msg_type pkt) of
        None \<Rightarrow> None
      | Some t \<Rightarrow>
          (case client_arch pkt of
             None \<Rightarrow> None
           | Some a \<Rightarrow>
               (case firmware_of_arch a of
                  None \<Rightarrow> None
                | Some fw \<Rightarrow>
                    Some \<lparr>msg_type = t, xid = xid pkt, flags = flags pkt, chaddr = chaddr pkt,
                          yiaddr = ''0.0.0.0'', siaddr = proxy_advertise p,
                          bootfile = boot_filename p fw (user_class pkt),
                          client_arch = None, user_class = None,
                          vendor_class = Some ''PXEClient'',
                          server_identifier = Some (proxy_advertise p),
                          client_identifier = client_identifier pkt,
                          uuid_guid = uuid_guid pkt\<rparr>)))"

section \<open>Command line: extra kernel arguments\<close>

text \<open>
  \<^verbatim>\<open>getExtraKernelArgs(args, logger)\<close> reads the package variable
  \<^verbatim>\<open>serverOptions.ExtraKernelArgs\<close> (bound to the flag \<^verbatim>\<open>--extra-kernel-args\<close>) and the
  environment variable \<^verbatim>\<open>EXTRA_KERNEL_ARGS\<close>; both are passed explicitly here.
  \<^verbatim>\<open>os.Getenv\<close> returns the empty string for an unset variable.
\<close>

definition getExtraKernelArgs :: "string \<Rightarrow> string \<Rightarrow> string list \<Rightarrow> string" where
  "getExtraKernelArgs flagValue kernelArgsEnv args =
     (if flagValue \<noteq> [] then flagValue
      else if kernelArgsEnv \<noteq> [] then kernelArgsEnv
      else if length args > 0 then Join args '' ''
      else [])"

section \<open>Example inputs\<close>

definition example_binary :: bytes where
  "example_binary = ''ab# *PLACEHOLDER START*xyz# *PLACEHOLDER END*cd''"

definition example_fs :: filesystem where
  "example_fs = \<lparr>files = [''in'' \<mapsto> example_binary,
                    ''rev'' \<mapsto> ''# *PLACEHOLDER END*# *PLACEHOLDER START*'',
                    ''none'' \<mapsto> ''abc''],
          mkdir_fails = (\<lambda>d. d = ''nodir''), write_fails = (\<lambda>_. False), create_fails = (\<lambda>_. False)\<rparr>"

definition example_patched :: bytes where
  "example_patched = ''ab#!ipxe'' @ replicate 37 newline @ ''cd''"

definition example_factory :: factory where
  "example_factory = \<lparr>Marshal = (\<lambda>sch. Inr ''customization: {}''),
                       SchematicCreate = (\<lambda>sch. Inr ''376567988ad370138ad8b2698212367b8edcb69b5fd68c80be1f2ec7d603b4ba'')\<rparr>"

definition failing_factory :: factory where
  "failing_factory = \<lparr>Marshal = (\<lambda>sch. Inr ''customization: {}''),
                       SchematicCreate = (\<lambda>sch. Inl (Errorf ''POST https://factory.talos.dev/schematics: 503''))\<rparr>"

definition example_client :: Client where
  "example_client = \<lparr>pxeBaseURL = ''https://pxe.factory.talos.dev'', secureBootEnabled = True\<rparr>"

definition example_handler :: Handler where
  "example_handler =
     \<lparr>imageFactoryClient =
        (\<lambda>talosVersion arch extensions extraKernelArgs.
           if arch = ''arm64'' then Inl (Errorf ''failed to create schematic: 503'')
           else Inr (''https://pxe.factory.talos.dev/pxe/3765/'' @ talosVersion @ ''/metal-'' @ arch)),
      kernelArgs = [''a=1''],
      initScript = ''#!ipxe'',
      options = \<lparr>APIAdvertiseAddress = ''10.0.0.5'', TalosVersion = ''v1.10.5'',
                  ExtraKernelArgs = ''a=1'', Extensions = [], APIPort = 50084\<rparr>\<rparr>"

definition example_request :: "string \<Rightarrow> string \<Rightarrow> Request" where
  "example_request script arch =
     \<lparr>PathValue_script = script,
      Query_Get = (\<lambda>key. if key = ''arch'' then arch else if key = ''uuid'' then ''abc''
                          else if key = ''mac'' then ''aa-bb-cc-dd-ee-ff'' else [])\<rparr>"

definition example_constants :: constants where
  "example_constants = \<lparr>IPXEPath = ''/var/lib/ipxe'', TFTPPath = ''/var/lib/tftp''\<rparr>"

definition example_efi :: bytes where
  "example_efi = placeholderStart @ replicate 1000 (CHR ''.'') @ placeholderEnd"

definition boot_fs :: filesystem where
  "boot_fs =
     \<lparr>files = (\<lambda>p. if p \<in> {''/var/lib/ipxe/amd64/ipxe.efi'', ''/var/lib/ipxe/arm64/ipxe.efi'',
                            ''/var/lib/ipxe/amd64/snp.efi'', ''/var/lib/ipxe/arm64/snp.efi'',
                            ''/var/lib/ipxe/amd64/kpxe/undionly.kpxe.bin''}
                    then Some example_efi
                    else if p = ''/var/lib/ipxe/amd64/kpxe/undionly.kpxe.zinfo'' then Some ''zinfo''
                    else None),
      mkdir_fails = (\<lambda>_. False), write_fails = (\<lambda>_. False), create_fails = (\<lambda>_. False)\<rparr>"

definition example_zbin :: zbin where
  "example_zbin bin info =
     (case (bin, info) of
        (Some b, Some i) \<Rightarrow> ZbinDone (''zbin'' @ b)
      | _ \<Rightarrow> ZbinExit 1 [])"

definition example_options :: HandlerOptions where
  "example_options = \<lparr>APIAdvertiseAddress = ''10.0.0.5'', TalosVersion = ''v1.10.5'',
                        ExtraKernelArgs = ''a=1  b=2'', Extensions = [''siderolabs/hello-world-service''],
                        APIPort = 50084\<rparr>"

definition example_factory_client :: ImageFactoryClient where
  "example_factory_client talosVersion arch extensions extraKernelArgs =
     fst (SchematicIPXEURL example_factory example_client talosVersion arch extensions extraKernelArgs)"

definition example_script :: bytes where
  "example_script = bootTemplate ''10.0.0.5'' ''50084'' ''ipxe/boot.ipxe''"

definition boot_handler :: "bool \<Rightarrow> Handler" where
  "boot_handler configServerEnabled =
     \<lparr>imageFactoryClient = example_factory_client,
      kernelArgs = (if configServerEnabled
                    then [''a=1'', ''b=2'', ''talos.config=http://10.0.0.5:50084/config?u=${uuid}'']
                    else [''a=1'', ''b=2'']),
      initScript = example_script,
      options = example_options\<rparr>"

definition example_environment :: "error + string list \<Rightarrow> environment" where
  "example_environment ips =
     \<lparr>RoutableIPs = ips,
      Build = (\<lambda>opts. Inr ''apiVersion: v1alpha1''),
      client_New = (\<lambda>baseURL. Inr example_factory),
      zbin_program = example_zbin,
      paths = example_constants\<rparr>"

definition example_server_options :: "string \<Rightarrow> Options" where
  "example_server_options advertise =
     \<lparr>ImageFactoryBaseURL = ''https://factory.talos.dev'',
      ImageFactoryPXEBaseURL = ''https://pxe.factory.talos.dev'',
      APIListenAddress = [],
      APIAdvertiseAddress = advertise,
      DHCPProxyIfaceOrIP = [],
      TalosVersion = ''v1.10.5'',
      Extensions = [''siderolabs/hello-world-service''],
      ExtraKernelArgs = [],
      MachineConfig = \<lparr>OmniSiderolinkAPIURL = [], OmniJoinToken = [],
                         OmniEventsPort = 8090, OmniKmsgLogPort = 8092\<rparr>,
      APIPort = 50084,
      DisableDHCPProxy = False,
      SecureBootEnabled = False\<rparr>"

definition example_proxy :: proxy where
  "example_proxy = \<lparr>proxy_advertise = ''10.0.0.5'', proxy_port = 50084\<rparr>"

definition example_discover :: "16 word \<Rightarrow> string option \<Rightarrow> dhcp_packet" where
  "example_discover arch uc =
     \<lparr>msg_type = DISCOVER, xid = 0x3903F326, flags = 0x8000,
      chaddr = [0xAA, 0xBB, 0xCC, 0xDD, 0xEE, 0xFF],
      yiaddr = ''0.0.0.0'', siaddr = ''0.0.0.0'', bootfile = [],
      client_arch = Some arch, user_class = uc, vendor_class = Some ''PXEClient'',
      server_identifier = None, client_identifier = None, uuid_guid = None\<rparr>"

section \<open>Properties\<close>

subsection \<open>Searching and copying bytes\<close>

lemma occurs_at_0: "occurs_at sep s 0 = HasPrefix s sep"
  by (auto simp: occurs_at_def HasPrefix_def)

lemma occurs_at_Suc: "occurs_at sep (c # cs) (Suc i) = occurs_at sep cs i"
  by (auto simp: occurs_at_def)

lemma index_from_Some:
  "index_from s sep = Some i \<Longrightarrow> occurs_at sep s i \<and> (\<forall>j<i. \<not> occurs_at sep s j)"
proof (induction s arbitrary: i)
  case Nil
  then show ?case by (auto simp: occurs_at_def split: if_splits)
next
  case (Cons c cs)
  show ?case
  proof (cases "HasPrefix (c # cs) sep")
    case True
    with Cons.prems show ?thesis by (simp add: occurs_at_0)
  next
    case False
    with Cons.prems obtain k where k: "index_from cs sep = Some k" "i = Suc k"
      by auto
    from Cons.IH [OF k(1)] have ih: "occurs_at sep cs k" "\<forall>j<k. \<not> occurs_at sep cs j"
      by auto
    have "\<not> occurs_at sep (c # cs) j" if "j < i" for j
    proof (cases j)
      case 0
      with False show ?thesis by (simp add: occurs_at_0)
    next
      case (Suc m)
      with that k(2) ih(2) show ?thesis by (simp add: occurs_at_Suc)
    qed
    with ih(1) k(2) show ?thesis by (simp add: occurs_at_Suc)
  qed
qed

lemma index_from_None:
  "index_from s sep = None \<Longrightarrow> \<not> occurs_at sep s j"
proof (induction s arbitrary: j)
  case Nil
  then show ?case by (auto simp: occurs_at_def split: if_splits)
next
  case (Cons c cs)
  then have np: "\<not> HasPrefix (c # cs) sep" and n: "index_from cs sep = None"
    by (auto split: if_splits)
  show ?case
  proof (cases j)
    case 0
    with np show ?thesis by (simp add: occurs_at_0)
  next
    case (Suc m)
    with Cons.IH [OF n] show ?thesis by (simp add: occurs_at_Suc)
  qed
qed

lemma first_at_unique: "first_at sep s i \<Longrightarrow> first_at sep s j \<Longrightarrow> i = j"
  unfolding first_at_def by (metis atLeast0LessThan lessThan_iff linorder_neqE_nat set_upt)

lemma index_from_first_at: "index_from s sep = Some i \<longleftrightarrow> first_at sep s i"
proof
  assume "index_from s sep = Some i"
  from index_from_Some [OF this] show "first_at sep s i" by (simp add: first_at_def)
next
  assume f: "first_at sep s i"
  show "index_from s sep = Some i"
  proof (cases "index_from s sep")
    case None
    from index_from_None [OF this] f show ?thesis by (simp add: first_at_def)
  next
    case (Some k)
    from index_from_Some [OF this] have "first_at sep s k" by (simp add: first_at_def)
    with f Some show ?thesis by (simp add: first_at_unique)
  qed
qed

lemma index_from_absent: "index_from s sep = None \<longleftrightarrow> absent sep s"
proof
  assume "index_from s sep = None"
  from index_from_None [OF this] show "absent sep s" by (simp add: absent_def)
next
  assume a: "absent sep s"
  show "index_from s sep = None"
  proof (cases "index_from s sep")
    case None then show ?thesis .
  next
    case (Some k)
    from index_from_Some [OF this] have "occurs_at sep s k" by simp
    moreover from this have "k < Suc (length s)" by (simp add: occurs_at_def)
    ultimately have False using a unfolding absent_def by (metis atLeast0LessThan lessThan_iff set_upt)
    then show ?thesis ..
  qed
qed

lemma Index_first_at: "first_at sep s i \<Longrightarrow> Index s sep = int i"
  by (simp add: Index_def index_from_first_at [symmetric])

lemma Index_absent: "absent sep s \<Longrightarrow> Index s sep = - 1"
  by (simp add: Index_def index_from_absent [symmetric])

lemma Index_cases: "Index s sep = - 1 \<and> absent sep s \<or> (\<exists>i. Index s sep = int i \<and> first_at sep s i)"
proof (cases "index_from s sep")
  case None
  then show ?thesis by (simp add: Index_def index_from_absent [symmetric])
next
  case (Some k)
  then show ?thesis by (simp add: Index_def index_from_first_at [symmetric])
qed

lemma Index_in_range:
  assumes "Index s sep \<noteq> - 1"
  shows "0 \<le> Index s sep \<and> nat (Index s sep) + length sep \<le> length s"
proof -
  from Index_cases [of s sep] assms obtain i where "Index s sep = int i" "first_at sep s i"
    by auto
  then show ?thesis by (simp add: first_at_def occurs_at_def)
qed

lemma Repeat_single: "Repeat [c] n = replicate n c"
  by (induction n) (simp_all add: Repeat_def)

lemma copy_bytes_same_length: "length dst = length src \<Longrightarrow> copy_bytes dst src = src"
  by (simp add: copy_bytes_def)

lemma patched_length:
  "start + region \<le> length contents \<Longrightarrow> length script \<le> region \<Longrightarrow>
   length (patched contents start region script) = length contents"
  by (simp add: patched_def)

lemma patched_outside:
  assumes "start + region \<le> length contents" "length script \<le> region"
    and "i < start \<or> start + region \<le> i"
  shows "patched contents start region script ! i = contents ! i"
proof (cases "i < start")
  case True
  with assms show ?thesis by (simp add: patched_def nth_append)
next
  case False
  with assms have ge: "start + region \<le> i" by simp
  have l1: "length (take start contents) = start" using assms by simp
  have l2: "length (script @ replicate (region - length script) newline) = region"
    using assms by simp
  have "patched contents start region script ! i
        = ((take start contents @ script @ replicate (region - length script) newline)
            @ drop (start + region) contents) ! i"
    by (simp add: patched_def)
  also have "\<dots> = drop (start + region) contents ! (i - (start + region))"
    using ge l1 l2 by (subst nth_append) (simp del: length_take)
  also have "\<dots> = contents ! i"
    using ge assms by simp
  finally show ?thesis .
qed

lemma patched_inside:
  assumes "start + region \<le> length contents" "length script \<le> region"
  shows "take region (drop start (patched contents start region script))
         = script @ replicate (region - length script) newline"
  using assms by (simp add: patched_def)

lemma patchScript_found:
  assumes src: "files fs source = Some contents"
    and s: "first_at placeholderStart contents start"
    and e: "first_at placeholderEnd contents e"
    and le: "start \<le> e"
  shows "patchScript fs source destination script =
     (let region = e + length placeholderEnd - start in
      if length script > region then (Some (ScriptTooLarge (length script) (int region)), fs)
      else if mkdir_fails fs destination then (Some (MkdirAllError destination), fs)
      else if write_fails fs destination then (Some (WriteFileError destination), fs)
      else (None, fs\<lparr>files := (files fs)(destination \<mapsto> patched contents start region script)\<rparr>))"
proof -
  define region where "region = e + length placeholderEnd - start"
  have istart: "Index contents placeholderStart = int start" using s by (rule Index_first_at)
  have iend: "Index contents placeholderEnd = int e" using e by (rule Index_first_at)
  have fits: "e + length placeholderEnd \<le> length contents"
    using e by (simp add: first_at_def occurs_at_def)
  have reg: "int e + int (length placeholderEnd) - int start = int region"
    using le by (simp add: region_def)
  have sr: "start + region = e + length placeholderEnd" using le by (simp add: region_def)
  show ?thesis
  proof (cases "length script > region")
    case True
    then show ?thesis using src istart iend le reg
      by (simp add: patchScript_def Let_def region_def [symmetric])
  next
    case False
    then have ls: "length script \<le> region" by simp
    have pad: "nat (int region - int (length script)) = region - length script"
      using ls by simp
    have slice: "length (take region (drop start contents)) = region"
      using fits sr by simp
    have cp: "copy_bytes (take region (drop start contents))
                (script @ replicate (region - length script) newline)
              = script @ replicate (region - length script) newline"
      using slice ls by (simp add: copy_bytes_same_length)
    have ne: "nat (int e + int (length placeholderEnd)) = start + region"
      using sr by simp
    show ?thesis using src istart iend le reg ls
      by (simp add: patchScript_def Let_def region_def [symmetric] pad Repeat_single cp ne
          patched_def del: replicate_eq_replicate)
  qed
qed

lemma patchScript_not_found:
  assumes src: "files fs source = Some contents"
    and "absent placeholderStart contents \<or> absent placeholderEnd contents
         \<or> (\<exists>start e. first_at placeholderStart contents start
               \<and> first_at placeholderEnd contents e \<and> e < start)"
  shows "\<exists>err. patchScript fs source destination script = (Some err, fs)"
proof -
  consider (a) "absent placeholderStart contents"
    | (b) "\<not> absent placeholderStart contents" "absent placeholderEnd contents"
    | (c) start e where "first_at placeholderStart contents start"
        "first_at placeholderEnd contents e" "e < start"
    using assms(2) by blast
  then show ?thesis
  proof cases
    case a
    then show ?thesis using src by (simp add: patchScript_def Index_absent)
  next
    case b
    then show ?thesis using src
      by (cases "Index contents placeholderStart = - 1") (simp_all add: patchScript_def Index_absent Let_def)
  next
    case c
    then show ?thesis using src
      by (simp add: patchScript_def Index_first_at Let_def)
  qed
qed

lemma example_fs_in: "files example_fs ''in'' = Some example_binary"
  by (simp add: example_fs_def)

lemma example_binary_start: "first_at placeholderStart example_binary 2"
  by code_simp

lemma example_binary_end: "first_at placeholderEnd example_binary 26"
  by code_simp

lemma example_patch:
  "patchScript example_fs ''in'' ''out'' ''#!ipxe''
     = (None, example_fs\<lparr>files := (files example_fs)(''out'' \<mapsto> example_patched)\<rparr>)"
proof -
  have io: "\<not> mkdir_fails example_fs ''out''" "\<not> write_fails example_fs ''out''"
    by (simp_all add: example_fs_def)
  show ?thesis
    using patchScript_found [OF example_fs_in example_binary_start example_binary_end, of "''out''" "''#!ipxe''"] io
    by (simp add: Let_def placeholderEnd_def patched_def example_binary_def example_patched_def)
qed

lemma HasPrefix_append: "HasPrefix (p @ s) p"
  by (simp add: HasPrefix_def)

lemma HasPrefix_trans: "HasPrefix s p \<Longrightarrow> HasPrefix (s @ t) p"
  by (auto simp: HasPrefix_def)

lemma buildInitScript_shebang:
  "\<exists>s. buildInitScript endpoint port = Inr s \<and> HasPrefix s ''#!ipxe''"
  by (simp add: buildInitScript_def bootTemplate_def line_def HasPrefix_def)

lemma patchScript_success:
  assumes src: "files fs source = Some contents"
    and ok: "patchScript fs source destination script = (None, fs')"
  shows "\<exists>start e. first_at placeholderStart contents start \<and> first_at placeholderEnd contents e
           \<and> start \<le> e \<and> length script \<le> e + length placeholderEnd - start
           \<and> fs' = fs\<lparr>files := (files fs)(destination \<mapsto>
                        patched contents start (e + length placeholderEnd - start) script)\<rparr>"
proof -
  from Index_cases [of contents placeholderStart] obtain start
    where s: "first_at placeholderStart contents start"
    using src ok by (auto simp: patchScript_def)
  from Index_cases [of contents placeholderEnd] obtain e
    where e: "first_at placeholderEnd contents e"
    using src ok s by (auto simp: patchScript_def Index_first_at Let_def split: if_splits)
  have le: "start \<le> e"
    using src ok s e by (auto simp: patchScript_def Index_first_at Let_def split: if_splits)
  from patchScript_found [OF src s e le, of destination script] ok
  have "length script \<le> e + length placeholderEnd - start \<and>
     fs' = fs\<lparr>files := (files fs)(destination \<mapsto>
                        patched contents start (e + length placeholderEnd - start) script)\<rparr>"
    by (auto simp: Let_def split: if_splits)
  with s e le show ?thesis by blast
qed

subsection \<open>The postcondition of patchScript\<close>

text \<open>
  C1. For a readable source in which the start marker first occurs at offset \<open>start\<close>
  and the end marker first occurs at offset \<open>e\<close> with \<open>start \<le> e\<close>, let \<open>region\<close> be
  \<open>e + len(endMarker) - start\<close>. If the script is longer than \<open>region\<close> the operation
  fails and writes nothing. Otherwise the bytes to be written are the source with the
  range \<open>[start, start + region)\<close> replaced by the script padded with newline bytes to
  \<open>region\<close> bytes: the length is preserved, every byte outside the range is unchanged,
  and these bytes become the contents of the destination unless creating the directory
  or writing the file fails. If a marker is absent, or the first end marker precedes the
  first start marker, the operation fails and writes nothing.
\<close>

theorem patchScript_postcondition:
  assumes "files fs source = Some contents"
  shows
   "(first_at placeholderStart contents start \<and> first_at placeholderEnd contents e \<and> start \<le> e \<longrightarrow>
      (let region = e + length placeholderEnd - start;
           out = take start contents @ script @ replicate (region - length script) newline
                   @ drop (start + region) contents
       in (length script > region \<longrightarrow>
             (\<exists>err. patchScript fs source destination script = (Some err, fs)))
        \<and> (length script \<le> region \<longrightarrow>
             length out = length contents
           \<and> (\<forall>i. i < start \<or> start + region \<le> i \<longrightarrow> out ! i = contents ! i)
           \<and> take region (drop start out) = script @ replicate (region - length script) newline
           \<and> (\<not> mkdir_fails fs destination \<and> \<not> write_fails fs destination \<longrightarrow>
                patchScript fs source destination script
                  = (None, fs\<lparr>files := (files fs)(destination \<mapsto> out)\<rparr>))
           \<and> (mkdir_fails fs destination \<or> write_fails fs destination \<longrightarrow>
                (\<exists>err. patchScript fs source destination script = (Some err, fs))))))
  \<and> (absent placeholderStart contents \<or> absent placeholderEnd contents
       \<or> (\<exists>start e. first_at placeholderStart contents start
               \<and> first_at placeholderEnd contents e \<and> e < start) \<longrightarrow>
      (\<exists>err. patchScript fs source destination script = (Some err, fs)))"
proof (intro conjI impI)
  assume h: "first_at placeholderStart contents start \<and> first_at placeholderEnd contents e \<and> start \<le> e"
  define region where "region = e + length placeholderEnd - start"
  have bound: "start + region \<le> length contents"
    using h by (simp add: region_def first_at_def occurs_at_def)
  have found: "patchScript fs source destination script =
      (if length script > region then (Some (ScriptTooLarge (length script) (int region)), fs)
       else if mkdir_fails fs destination then (Some (MkdirAllError destination), fs)
       else if write_fails fs destination then (Some (WriteFileError destination), fs)
       else (None, fs\<lparr>files := (files fs)(destination \<mapsto> patched contents start region script)\<rparr>))"
    using patchScript_found [OF assms, of start e destination script] h
    by (simp add: region_def Let_def)
  have big: "length script > region \<longrightarrow>
      (\<exists>err. patchScript fs source destination script = (Some err, fs))"
    by (simp add: found)
  have small: "length script \<le> region \<longrightarrow>
             length (patched contents start region script) = length contents
           \<and> (\<forall>i. i < start \<or> start + region \<le> i \<longrightarrow> patched contents start region script ! i = contents ! i)
           \<and> take region (drop start (patched contents start region script))
                = script @ replicate (region - length script) newline
           \<and> (\<not> mkdir_fails fs destination \<and> \<not> write_fails fs destination \<longrightarrow>
                patchScript fs source destination script
                  = (None, fs\<lparr>files := (files fs)(destination \<mapsto> patched contents start region script)\<rparr>))
           \<and> (mkdir_fails fs destination \<or> write_fails fs destination \<longrightarrow>
                (\<exists>err. patchScript fs source destination script = (Some err, fs)))"
  proof (intro impI conjI allI)
    assume ls: "length script \<le> region"
    show "length (patched contents start region script) = length contents"
      using bound ls by (rule patched_length)
    show "take region (drop start (patched contents start region script))
            = script @ replicate (region - length script) newline"
      using bound ls by (rule patched_inside)
    show "patched contents start region script ! i = contents ! i"
      if "i < start \<or> start + region \<le> i" for i
      using bound ls that by (rule patched_outside)
    show "patchScript fs source destination script
            = (None, fs\<lparr>files := (files fs)(destination \<mapsto> patched contents start region script)\<rparr>)"
      if "\<not> mkdir_fails fs destination \<and> \<not> write_fails fs destination"
      using that ls by (simp add: found)
    show "\<exists>err. patchScript fs source destination script = (Some err, fs)"
      if "mkdir_fails fs destination \<or> write_fails fs destination"
      using that ls by (auto simp: found)
  qed
  show "let region = e + length placeholderEnd - start;
           out = take start contents @ script @ replicate (region - length script) newline
                   @ drop (start + region) contents
       in (length script > region \<longrightarrow>
             (\<exists>err. patchScript fs source destination script = (Some err, fs)))
        \<and> (length script \<le> region \<longrightarrow>
             length out = length contents
           \<and> (\<forall>i. i < start \<or> start + region \<le> i \<longrightarrow> out ! i = contents ! i)
           \<and> take region (drop start out) = script @ replicate (region - length script) newline
           \<and> (\<not> mkdir_fails fs destination \<and> \<not> write_fails fs destination \<longrightarrow>
                patchScript fs source destination script
                  = (None, fs\<lparr>files := (files fs)(destination \<mapsto> out)\<rparr>))
           \<and> (mkdir_fails fs destination \<or> write_fails fs destination \<longrightarrow>
                (\<exists>err. patchScript fs source destination script = (Some err, fs))))"
    unfolding Let_def region_def [symmetric] patched_def [symmetric]
    using big small by blast
next
  assume "absent placeholderStart contents \<or> absent placeholderEnd contents
       \<or> (\<exists>start e. first_at placeholderStart contents start
               \<and> first_at placeholderEnd contents e \<and> e < start)"
  with assms show "\<exists>err. patchScript fs source destination script = (Some err, fs)"
    by (rule patchScript_not_found)
qed

theorem patchScript_postcondition_witness:
  "first_at placeholderStart example_binary 2 \<and> first_at placeholderEnd example_binary 26
   \<and> patchScript example_fs ''in'' ''out'' ''#!ipxe''
       = (None, example_fs\<lparr>files := (files example_fs)
            (''out'' \<mapsto> ''ab'' @ ''#!ipxe'' @ replicate 37 newline @ ''cd'')\<rparr>)
   \<and> (\<exists>err. patchScript example_fs ''in'' ''out'' (replicate 44 (CHR ''x'')) = (Some err, example_fs))
   \<and> (\<exists>err. patchScript example_fs ''in'' ''nodir'' ''#!ipxe'' = (Some err, example_fs))
   \<and> absent placeholderStart ''abc''
   \<and> (\<exists>err. patchScript example_fs ''none'' ''out'' ''#!ipxe'' = (Some err, example_fs))
   \<and> first_at placeholderStart ''# *PLACEHOLDER END*# *PLACEHOLDER START*'' 19
   \<and> first_at placeholderEnd ''# *PLACEHOLDER END*# *PLACEHOLDER START*'' 0
   \<and> (\<exists>err. patchScript example_fs ''rev'' ''out'' ''#!ipxe'' = (Some err, example_fs))"
proof -
  have f1: "files example_fs ''in'' = Some example_binary"
    and f2: "files example_fs ''none'' = Some ''abc''"
    and f3: "files example_fs ''rev'' = Some ''# *PLACEHOLDER END*# *PLACEHOLDER START*''"
    by (simp_all add: example_fs_def)
  have s: "first_at placeholderStart example_binary 2" by code_simp
  have e: "first_at placeholderEnd example_binary 26" by code_simp
  have a: "absent placeholderStart ''abc''" by code_simp
  have r1: "first_at placeholderStart ''# *PLACEHOLDER END*# *PLACEHOLDER START*'' 19" by code_simp
  have r2: "first_at placeholderEnd ''# *PLACEHOLDER END*# *PLACEHOLDER START*'' 0" by code_simp
  have io: "\<not> mkdir_fails example_fs ''out''" "\<not> write_fails example_fs ''out''"
    "mkdir_fails example_fs ''nodir''"
    by (simp_all add: example_fs_def)
  have c1: "patchScript example_fs ''in'' ''out'' ''#!ipxe''
       = (None, example_fs\<lparr>files := (files example_fs)
            (''out'' \<mapsto> ''ab'' @ ''#!ipxe'' @ replicate 37 newline @ ''cd'')\<rparr>)"
    using patchScript_postcondition [OF f1, of 2 26 "''#!ipxe''" "''out''"] s e io
    by (simp add: Let_def placeholderEnd_def example_binary_def)
  have c2: "\<exists>err. patchScript example_fs ''in'' ''out'' (replicate 44 (CHR ''x'')) = (Some err, example_fs)"
    using patchScript_postcondition [OF f1, of 2 26 "replicate 44 (CHR ''x'')" "''out''"] s e
    by (simp add: Let_def placeholderEnd_def)
  have c3: "\<exists>err. patchScript example_fs ''in'' ''nodir'' ''#!ipxe'' = (Some err, example_fs)"
    using patchScript_postcondition [OF f1, of 2 26 "''#!ipxe''" "''nodir''"] s e io
    by (simp add: Let_def placeholderEnd_def)
  have c4: "\<exists>err. patchScript example_fs ''none'' ''out'' ''#!ipxe'' = (Some err, example_fs)"
    using patchScript_postcondition [OF f2, of 0 0 "''#!ipxe''" "''out''"] a
    by simp
  have c5: "\<exists>err. patchScript example_fs ''rev'' ''out'' ''#!ipxe'' = (Some err, example_fs)"
  proof -
    have "\<exists>start e. first_at placeholderStart ''# *PLACEHOLDER END*# *PLACEHOLDER START*'' start
            \<and> first_at placeholderEnd ''# *PLACEHOLDER END*# *PLACEHOLDER START*'' e \<and> e < start"
      using r1 r2 by (intro exI [of _ 19] exI [of _ 0]) simp
    then show ?thesis
      using patchScript_postcondition [OF f3, of 0 0 "''#!ipxe''" "''out''"] by blast
  qed
  from s e c1 c2 c3 a c4 r1 r2 c5 show ?thesis by blast
qed

subsection \<open>What a successful patch leaves in the placeholder region\<close>

text \<open>
  C2, as the code has it. After a successful run of patchScript the byte range that the
  markers bracketed in the source, from the first start marker through the end of the
  first end marker, holds in the output the script followed by newline padding only; the
  length of the binary is unchanged. A script that begins with \<open>#!ipxe\<close>, as every
  rendered init script does, therefore leaves a range that begins with \<open>#!ipxe\<close>. The
  markers are part of the range and are overwritten.
\<close>

theorem patchScript_region_holds_script:
  assumes "files fs source = Some contents"
    and "patchScript fs source destination script = (None, fs')"
  shows "\<exists>start e out. first_at placeholderStart contents start
           \<and> first_at placeholderEnd contents e \<and> start \<le> e
           \<and> files fs' destination = Some out
           \<and> length out = length contents
           \<and> take (e + length placeholderEnd - start) (drop start out)
               = script @ replicate (e + length placeholderEnd - start - length script) newline
           \<and> (HasPrefix script ''#!ipxe'' \<longrightarrow> HasPrefix (drop start out) ''#!ipxe'')
           \<and> (\<exists>s. buildInitScript endpoint port = Inr s \<and> HasPrefix s ''#!ipxe'')"
proof -
  from patchScript_success [OF assms] obtain start e
    where s: "first_at placeholderStart contents start"
      and e: "first_at placeholderEnd contents e"
      and le: "start \<le> e"
      and ls: "length script \<le> e + length placeholderEnd - start"
      and fs': "fs' = fs\<lparr>files := (files fs)(destination \<mapsto>
                        patched contents start (e + length placeholderEnd - start) script)\<rparr>"
    by blast
  define region where "region = e + length placeholderEnd - start"
  define out where "out = patched contents start region script"
  have bound: "start + region \<le> length contents"
    using e le by (simp add: region_def first_at_def occurs_at_def)
  have f: "files fs' destination = Some out"
    by (simp add: fs' out_def region_def)
  have len: "length out = length contents"
    unfolding out_def using bound ls [folded region_def] by (rule patched_length)
  have inside: "take region (drop start out) = script @ replicate (region - length script) newline"
    unfolding out_def using bound ls [folded region_def] by (rule patched_inside)
  have pre: "HasPrefix (drop start out) ''#!ipxe''" if p: "HasPrefix script ''#!ipxe''"
  proof -
    have "HasPrefix (take region (drop start out)) ''#!ipxe''"
      unfolding inside using p by (rule HasPrefix_trans)
    then show ?thesis
      by (auto simp: HasPrefix_def take_take min_def split: if_splits)
  qed
  from s e le f len inside pre buildInitScript_shebang [of endpoint port] show ?thesis
    unfolding region_def by blast
qed

text \<open>
  The markers do not survive a patch: in the example binary both are gone afterwards.
\<close>

theorem patchScript_markers_counterexample:
  "patchScript example_fs ''in'' ''out'' ''#!ipxe''
     = (None, example_fs\<lparr>files := (files example_fs)(''out'' \<mapsto> example_patched)\<rparr>)
   \<and> Index example_patched placeholderStart = - 1
   \<and> Index example_patched placeholderEnd = - 1"
proof -
  have "Index example_patched placeholderStart = - 1" by code_simp
  moreover have "Index example_patched placeholderEnd = - 1" by code_simp
  ultimately show ?thesis using example_patch by simp
qed

theorem patchScript_region_holds_script_witness:
  "files example_fs ''in'' = Some example_binary
   \<and> patchScript example_fs ''in'' ''out'' ''#!ipxe''
        = (None, example_fs\<lparr>files := (files example_fs)(''out'' \<mapsto> example_patched)\<rparr>)
   \<and> HasPrefix ''#!ipxe'' ''#!ipxe''
   \<and> (\<exists>start e out. first_at placeholderStart example_binary start
           \<and> first_at placeholderEnd example_binary e \<and> start \<le> e
           \<and> files (example_fs\<lparr>files := (files example_fs)(''out'' \<mapsto> example_patched)\<rparr>) ''out''
                = Some out
           \<and> length out = length example_binary
           \<and> take (e + length placeholderEnd - start) (drop start out)
               = ''#!ipxe'' @ replicate (e + length placeholderEnd - start - length ''#!ipxe'') newline
           \<and> HasPrefix (drop start out) ''#!ipxe''
           \<and> (\<exists>s. buildInitScript ''10.0.0.5'' 50084 = Inr s \<and> HasPrefix s ''#!ipxe''))"
proof -
  have p: "HasPrefix ''#!ipxe'' ''#!ipxe''" by (simp add: HasPrefix_def)
  from patchScript_region_holds_script [OF example_fs_in example_patch, of "''10.0.0.5''" 50084] p
  have "\<exists>start e out. first_at placeholderStart example_binary start
           \<and> first_at placeholderEnd example_binary e \<and> start \<le> e
           \<and> files (example_fs\<lparr>files := (files example_fs)(''out'' \<mapsto> example_patched)\<rparr>) ''out''
                = Some out
           \<and> length out = length example_binary
           \<and> take (e + length placeholderEnd - start) (drop start out)
               = ''#!ipxe'' @ replicate (e + length placeholderEnd - start - length ''#!ipxe'') newline
           \<and> HasPrefix (drop start out) ''#!ipxe''
           \<and> (\<exists>s. buildInitScript ''10.0.0.5'' 50084 = Inr s \<and> HasPrefix s ''#!ipxe'')"
    by blast
  with example_fs_in example_patch p show ?thesis by blast
qed

subsection \<open>The URL returned by the image factory client\<close>

text \<open>
  C3. A call with an empty Talos version returns an error and sends nothing upstream.
  Otherwise, once the schematic is marshalled, exactly the schematic built from the
  kernel arguments and the extensions is sent upstream; if the upstream answers with the
  schematic ID, the URL returned is the PXE base URL, \<open>/pxe/\<close>, the ID, \<open>/\<close>, the version,
  \<open>/metal-\<close> and the architecture, with \<open>-secureboot\<close> appended exactly when secure boot is
  enabled; if the upstream fails, the call returns an error that carries the upstream's
  message. The upstream is contacted only in such a call.
\<close>

theorem SchematicIPXEURL_contract:
  "(talosVersion = [] \<longrightarrow>
      (\<exists>err. SchematicIPXEURL f c talosVersion arch extensions extraKernelArgs = (Inl err, [])))
   \<and> (talosVersion \<noteq> [] \<and> Marshal f (Schematic extraKernelArgs extensions) = Inr marshaled \<longrightarrow>
        snd (SchematicIPXEURL f c talosVersion arch extensions extraKernelArgs)
          = [Schematic extraKernelArgs extensions]
      \<and> (SchematicCreate f (Schematic extraKernelArgs extensions) = Inr schematicID \<longrightarrow>
           fst (SchematicIPXEURL f c talosVersion arch extensions extraKernelArgs)
             = Inr (pxeBaseURL c @ ''/pxe/'' @ schematicID @ ''/'' @ talosVersion @ ''/metal-'' @ arch
                     @ (if secureBootEnabled c then ''-secureboot'' else [])))
      \<and> (SchematicCreate f (Schematic extraKernelArgs extensions) = Inl upstreamErr \<longrightarrow>
           fst (SchematicIPXEURL f c talosVersion arch extensions extraKernelArgs)
             = Inl (Errorf (''failed to create schematic: '' @ Error upstreamErr))))
   \<and> (snd (SchematicIPXEURL f c talosVersion arch extensions extraKernelArgs) \<noteq> [] \<longrightarrow>
        talosVersion \<noteq> []
      \<and> (\<exists>marshaled. Marshal f (Schematic extraKernelArgs extensions) = Inr marshaled))"
  by (auto simp: SchematicIPXEURL_def Let_def split: sum.splits)

theorem SchematicIPXEURL_contract_witness:
  "(\<exists>err. SchematicIPXEURL example_factory example_client [] ''arm64'' [] [''console=tty0''] = (Inl err, []))
   \<and> ''v1.10.5'' \<noteq> []
   \<and> Marshal example_factory (Schematic [''console=tty0''] []) = Inr ''customization: {}''
   \<and> SchematicCreate example_factory (Schematic [''console=tty0''] [])
        = Inr ''376567988ad370138ad8b2698212367b8edcb69b5fd68c80be1f2ec7d603b4ba''
   \<and> SchematicIPXEURL example_factory example_client ''v1.10.5'' ''arm64'' [] [''console=tty0'']
        = (Inr ''https://pxe.factory.talos.dev/pxe/376567988ad370138ad8b2698212367b8edcb69b5fd68c80be1f2ec7d603b4ba/v1.10.5/metal-arm64-secureboot'',
           [Schematic [''console=tty0''] []])
   \<and> SchematicCreate failing_factory (Schematic [''console=tty0''] [])
        = Inl (Errorf ''POST https://factory.talos.dev/schematics: 503'')
   \<and> SchematicIPXEURL failing_factory example_client ''v1.10.5'' ''arm64'' [] [''console=tty0'']
        = (Inl (Errorf ''failed to create schematic: POST https://factory.talos.dev/schematics: 503''),
           [Schematic [''console=tty0''] []])"
proof -
  have m: "Marshal example_factory (Schematic [''console=tty0''] []) = Inr ''customization: {}''"
    and u: "SchematicCreate example_factory (Schematic [''console=tty0''] [])
        = Inr ''376567988ad370138ad8b2698212367b8edcb69b5fd68c80be1f2ec7d603b4ba''"
    by (simp_all add: example_factory_def)
  have m': "Marshal failing_factory (Schematic [''console=tty0''] []) = Inr ''customization: {}''"
    and u': "SchematicCreate failing_factory (Schematic [''console=tty0''] [])
        = Inl (Errorf ''POST https://factory.talos.dev/schematics: 503'')"
    by (simp_all add: failing_factory_def)
  have sb: "secureBootEnabled example_client" "pxeBaseURL example_client = ''https://pxe.factory.talos.dev''"
    by (simp_all add: example_client_def)
  have 1: "\<exists>err. SchematicIPXEURL example_factory example_client [] ''arm64'' [] [''console=tty0''] = (Inl err, [])"
    using SchematicIPXEURL_contract [where talosVersion = "[]" and f = example_factory
        and c = example_client and arch = "''arm64''" and extensions = "[]"
        and extraKernelArgs = "[''console=tty0'']"]
    by simp
  have 2: "SchematicIPXEURL example_factory example_client ''v1.10.5'' ''arm64'' [] [''console=tty0'']
        = (Inr ''https://pxe.factory.talos.dev/pxe/376567988ad370138ad8b2698212367b8edcb69b5fd68c80be1f2ec7d603b4ba/v1.10.5/metal-arm64-secureboot'',
           [Schematic [''console=tty0''] []])"
    using SchematicIPXEURL_contract [where talosVersion = "''v1.10.5''" and f = example_factory
        and c = example_client and arch = "''arm64''" and extensions = "[]"
        and extraKernelArgs = "[''console=tty0'']" and marshaled = "''customization: {}''"
        and schematicID = "''376567988ad370138ad8b2698212367b8edcb69b5fd68c80be1f2ec7d603b4ba''"]
      m u sb
    by (simp add: prod_eq_iff)
  have 3: "SchematicIPXEURL failing_factory example_client ''v1.10.5'' ''arm64'' [] [''console=tty0'']
        = (Inl (Errorf ''failed to create schematic: POST https://factory.talos.dev/schematics: 503''),
           [Schematic [''console=tty0''] []])"
    using SchematicIPXEURL_contract [where talosVersion = "''v1.10.5''" and f = failing_factory
        and c = example_client and arch = "''arm64''" and extensions = "[]"
        and extraKernelArgs = "[''console=tty0'']" and marshaled = "''customization: {}''"
        and upstreamErr = "Errorf ''POST https://factory.talos.dev/schematics: 503''"]
      m' u'
    by (simp add: prod_eq_iff)
  from 1 2 3 m u u' show ?thesis by simp
qed

subsection \<open>Constructing the handler\<close>

lemma NewHandler_success:
  assumes "NewHandler k zb fs configServerEnabled client opts = (Inr handler, fs')"
  shows "handler =
      \<lparr>imageFactoryClient = client,
       kernelArgs = Fields (ExtraKernelArgs opts)
         @ (if configServerEnabled
            then [''talos.config=http://''
                   @ JoinHostPort (APIAdvertiseAddress opts) (Itoa (APIPort opts))
                   @ ''/config?u=${uuid}'']
            else []),
       initScript = bootTemplate (APIAdvertiseAddress opts) (Itoa (APIPort opts)) ''ipxe/boot.ipxe'',
       options = opts\<rparr>"
    and "buildInitScript (APIAdvertiseAddress opts) (APIPort opts) = Inr (initScript handler)"
    and "patchBinaries k zb fs (initScript handler) = (None, fs')"
proof -
  define s where "s = bootTemplate (APIAdvertiseAddress opts) (Itoa (APIPort opts)) ''ipxe/boot.ipxe''"
  have b: "buildInitScript (APIAdvertiseAddress opts) (APIPort opts) = Inr s"
    by (simp add: buildInitScript_def s_def IPXEURLPath_def bootScriptName_def)
  from assms b have p: "patchBinaries k zb fs s = (None, fs')"
    by (cases "patchBinaries k zb fs s") (auto simp: NewHandler_def Let_def split: option.splits)
  from assms b p show "handler =
      \<lparr>imageFactoryClient = client,
       kernelArgs = Fields (ExtraKernelArgs opts)
         @ (if configServerEnabled
            then [''talos.config=http://''
                   @ JoinHostPort (APIAdvertiseAddress opts) (Itoa (APIPort opts))
                   @ ''/config?u=${uuid}'']
            else []),
       initScript = bootTemplate (APIAdvertiseAddress opts) (Itoa (APIPort opts)) ''ipxe/boot.ipxe'',
       options = opts\<rparr>"
    by (auto simp: NewHandler_def Let_def KernelParamConfig_def s_def)
  then have i: "initScript handler = s" by (simp add: s_def)
  from b i show "buildInitScript (APIAdvertiseAddress opts) (APIPort opts) = Inr (initScript handler)"
    by simp
  from p i show "patchBinaries k zb fs (initScript handler) = (None, fs')" by simp
qed

lemma NewHandler_failure:
  assumes "patchBinaries k zb fs
             (bootTemplate (APIAdvertiseAddress opts) (Itoa (APIPort opts)) ''ipxe/boot.ipxe'')
           = (Some err, fs')"
  shows "NewHandler k zb fs configServerEnabled client opts = (Inl err, fs')"
  using assms
  by (simp add: NewHandler_def buildInitScript_def IPXEURLPath_def bootScriptName_def)

lemma NewHandler_ok:
  assumes "patchBinaries k zb fs
             (bootTemplate (APIAdvertiseAddress opts) (Itoa (APIPort opts)) ''ipxe/boot.ipxe'')
           = (None, fs')"
  shows "\<exists>handler. NewHandler k zb fs configServerEnabled client opts = (Inr handler, fs')"
  using assms
  by (simp add: NewHandler_def buildInitScript_def IPXEURLPath_def bootScriptName_def Let_def)

lemma ServeHTTP_boot_calls:
  assumes "PathValue_script req = bootScriptName"
  shows "snd (ServeHTTP handler w req) =
     [\<lparr>call_talosVersion = TalosVersion (options handler),
       call_arch = (if Query_Get req ''arch'' = ''arm64'' then ''arm64'' else ''amd64''),
       call_extensions = Extensions (options handler),
       call_extraKernelArgs = kernelArgs handler
         @ (if Query_Get req ''arch'' = ''arm64'' then [''console=tty0'', ''console=ttyAMA0'']
            else [''console=tty0'', ''console=ttyS0''])\<rparr>]"
proof -
  have ne: "bootScriptName \<noteq> initScriptName"
    by (simp add: bootScriptName_def initScriptName_def)
  show ?thesis using assms ne
    by (auto simp: ServeHTTP_def bootViaFactoryIPXEScript_def Let_def archArm64_def archAmd64_def
        consoleKernelArgs_def split: sum.splits)
qed

subsection \<open>An example installation\<close>

lemma HasPrefix_simps:
  "HasPrefix s [] = True"
  "HasPrefix [] (y # ys) = False"
  "HasPrefix (x # xs) (y # ys) = (x = y \<and> HasPrefix xs ys)"
  by (auto simp: HasPrefix_def)

lemma index_from_fill:
  "c \<noteq> CHR ''#'' \<Longrightarrow> index_from (replicate n c @ placeholderEnd) placeholderEnd = Some n"
proof (induction n)
  case 0
  then show ?case by (simp add: placeholderEnd_def HasPrefix_simps)
next
  case (Suc n)
  then show ?case by (simp add: placeholderEnd_def HasPrefix_simps)
qed

lemma example_efi_end: "first_at placeholderEnd example_efi 1021"
proof -
  have "index_from (replicate 1000 (CHR ''.'') @ placeholderEnd) placeholderEnd = Some 1000"
    by (rule index_from_fill) simp
  then have "index_from example_efi placeholderEnd = Some 1021"
    unfolding example_efi_def placeholderStart_def placeholderEnd_def
    by (simp add: HasPrefix_simps)
  then show ?thesis by (simp add: index_from_first_at)
qed

lemma example_efi_start: "first_at placeholderStart example_efi 0"
proof -
  have "index_from example_efi placeholderStart = Some 0"
    unfolding example_efi_def placeholderStart_def by (simp add: HasPrefix_def)
  then show ?thesis by (simp add: index_from_first_at)
qed

lemma patchScript_example_efi:
  assumes "files fs source = Some example_efi" "length script \<le> 1040"
    "\<not> mkdir_fails fs destination" "\<not> write_fails fs destination"
  shows "patchScript fs source destination script
           = (None, fs\<lparr>files := (files fs)(destination \<mapsto> patched example_efi 0 1040 script)\<rparr>)"
  using patchScript_found [OF assms(1) example_efi_start example_efi_end, of destination script]
    assms(2-4)
  by (simp add: Let_def placeholderEnd_def)

lemma example_script_length: "length example_script = 886"
  by (simp add: example_script_def bootTemplate_def line_def)

subsection \<open>The handler of the example installation\<close>

lemma boot_fs_io:
  "mkdir_fails boot_fs = (\<lambda>_. False)" "write_fails boot_fs = (\<lambda>_. False)"
  "create_fails boot_fs = (\<lambda>_. False)"
  by (simp_all add: boot_fs_def)

lemma patchBinaries_example:
  "\<exists>fs'. patchBinaries example_constants example_zbin boot_fs example_script = (None, fs')"
  by (simp add: patchBinaries_def example_constants_def patchScript_example_efi
      example_script_length boot_fs_def compressKPXE_def example_zbin_def Let_def)

lemma example_options_simps:
  "APIAdvertiseAddress example_options = ''10.0.0.5''"
  "APIPort example_options = 50084"
  "TalosVersion example_options = ''v1.10.5''"
  "Extensions example_options = [''siderolabs/hello-world-service'']"
  "ExtraKernelArgs example_options = ''a=1  b=2''"
  by (simp_all add: example_options_def)

lemma Itoa_50084: "Itoa 50084 = ''50084''"
  by (simp add: Itoa_def dec_digits.simps)

lemma Fields_example: "Fields ''a=1  b=2'' = [''a=1'', ''b=2'']"
  by code_simp

lemma NewHandler_example:
  "NewHandler example_constants example_zbin boot_fs en example_factory_client example_options
     = (Inr (boot_handler en),
        snd (NewHandler example_constants example_zbin boot_fs en example_factory_client example_options))"
proof -
  from patchBinaries_example obtain fs'
    where p: "patchBinaries example_constants example_zbin boot_fs example_script = (None, fs')"
    by blast
  then have "patchBinaries example_constants example_zbin boot_fs
      (bootTemplate (APIAdvertiseAddress example_options) (Itoa (APIPort example_options)) ''ipxe/boot.ipxe'')
      = (None, fs')"
    by (simp add: example_options_simps Itoa_50084 example_script_def)
  from NewHandler_ok [OF this, of en example_factory_client] obtain handler
    where n: "NewHandler example_constants example_zbin boot_fs en example_factory_client example_options
               = (Inr handler, fs')"
    by blast
  from NewHandler_success(1) [OF n] have "handler = boot_handler en"
    by (simp add: boot_handler_def example_options_simps Itoa_50084 Fields_example
        JoinHostPort_def example_script_def)
  with n show ?thesis by simp
qed

subsection \<open>The kernel arguments sent to the image factory\<close>

text \<open>
  C4, as the code has it. For a handler built by NewHandler and a request for
  \<open>boot.ipxe\<close>, the kernel arguments passed to the image factory client are, in order:
  the white-space separated fields of the configured extra kernel arguments; then, only
  when machine-config serving is enabled, the one argument
  \<open>talos.config=http://HOSTPORT/config?u=${uuid}\<close>, where \<open>HOSTPORT\<close> joins the advertise
  address and the port (an address with a colon is put in brackets); then the two
  console arguments of the normalized architecture. The first two parts are the kernel
  arguments of the handler, fixed at construction; only the console arguments depend on
  the request.
\<close>

theorem boot_kernel_args:
  assumes "NewHandler k zb fs configServerEnabled client opts = (Inr handler, fs')"
    and "PathValue_script req = bootScriptName"
  shows "kernelArgs handler =
           Fields (ExtraKernelArgs opts)
           @ (if configServerEnabled
              then [''talos.config=http://''
                     @ JoinHostPort (APIAdvertiseAddress opts) (Itoa (APIPort opts))
                     @ ''/config?u=${uuid}'']
              else [])
       \<and> map call_extraKernelArgs (snd (ServeHTTP handler w req)) =
           [Fields (ExtraKernelArgs opts)
            @ (if configServerEnabled
               then [''talos.config=http://''
                      @ JoinHostPort (APIAdvertiseAddress opts) (Itoa (APIPort opts))
                      @ ''/config?u=${uuid}'']
               else [])
            @ (if Query_Get req ''arch'' = ''arm64'' then [''console=tty0'', ''console=ttyAMA0'']
               else [''console=tty0'', ''console=ttyS0''])]"
proof -
  have ka: "kernelArgs handler =
           Fields (ExtraKernelArgs opts)
           @ (if configServerEnabled
              then [''talos.config=http://''
                     @ JoinHostPort (APIAdvertiseAddress opts) (Itoa (APIPort opts))
                     @ ''/config?u=${uuid}'']
              else [])"
    by (subst NewHandler_success(1) [OF assms(1)]) simp
  show ?thesis
    using ka by (simp add: ServeHTTP_boot_calls [OF assms(2)])
qed

theorem boot_kernel_args_counterexample:
  "NewHandler example_constants example_zbin boot_fs True example_factory_client example_options
     = (Inr (boot_handler True),
        snd (NewHandler example_constants example_zbin boot_fs True example_factory_client
               example_options))
   \<and> map call_extraKernelArgs
         (snd (ServeHTTP (boot_handler True) newResponseWriter (example_request ''boot.ipxe'' ''arm64'')))
       = [[''a=1'', ''b=2'', ''talos.config=http://10.0.0.5:50084/config?u=${uuid}'',
           ''console=tty0'', ''console=ttyAMA0'']]
   \<and> map call_extraKernelArgs
         (snd (ServeHTTP (boot_handler True) newResponseWriter (example_request ''boot.ipxe'' ''arm64'')))
       \<noteq> [Fields (ExtraKernelArgs example_options) @ [''console=tty0'', ''console=ttyAMA0'']
            @ [''talos.config=http://10.0.0.5:50084/config?u=${uuid}'']]"
proof -
  have r: "PathValue_script (example_request ''boot.ipxe'' ''arm64'') = bootScriptName"
    "Query_Get (example_request ''boot.ipxe'' ''arm64'') ''arch'' = ''arm64''"
    by (simp_all add: example_request_def bootScriptName_def)
  have c: "map call_extraKernelArgs
         (snd (ServeHTTP (boot_handler True) newResponseWriter (example_request ''boot.ipxe'' ''arm64'')))
       = [[''a=1'', ''b=2'', ''talos.config=http://10.0.0.5:50084/config?u=${uuid}'',
           ''console=tty0'', ''console=ttyAMA0'']]"
    by (simp add: ServeHTTP_boot_calls [OF r(1)] r(2) boot_handler_def)
  have d: "map call_extraKernelArgs
         (snd (ServeHTTP (boot_handler True) newResponseWriter (example_request ''boot.ipxe'' ''arm64'')))
       \<noteq> [Fields (ExtraKernelArgs example_options) @ [''console=tty0'', ''console=ttyAMA0'']
            @ [''talos.config=http://10.0.0.5:50084/config?u=${uuid}'']]"
    by (simp add: c example_options_simps Fields_example)
  from NewHandler_example [of True] c d show ?thesis by blast
qed

theorem boot_kernel_args_witness:
  "NewHandler example_constants example_zbin boot_fs True example_factory_client example_options
     = (Inr (boot_handler True),
        snd (NewHandler example_constants example_zbin boot_fs True example_factory_client
               example_options))
   \<and> PathValue_script (example_request ''boot.ipxe'' ''i386'') = bootScriptName
   \<and> kernelArgs (boot_handler True)
       = [''a=1'', ''b=2'', ''talos.config=http://10.0.0.5:50084/config?u=${uuid}'']
   \<and> map call_extraKernelArgs
         (snd (ServeHTTP (boot_handler True) newResponseWriter (example_request ''boot.ipxe'' ''i386'')))
       = [[''a=1'', ''b=2'', ''talos.config=http://10.0.0.5:50084/config?u=${uuid}'',
           ''console=tty0'', ''console=ttyS0'']]"
proof -
  have r: "PathValue_script (example_request ''boot.ipxe'' ''i386'') = bootScriptName"
    "Query_Get (example_request ''boot.ipxe'' ''i386'') ''arch'' = ''i386''"
    by (simp_all add: example_request_def bootScriptName_def)
  from boot_kernel_args [OF NewHandler_example [of True] r(1), of newResponseWriter]
  have "kernelArgs (boot_handler True)
       = [''a=1'', ''b=2'', ''talos.config=http://10.0.0.5:50084/config?u=${uuid}'']
   \<and> map call_extraKernelArgs
         (snd (ServeHTTP (boot_handler True) newResponseWriter (example_request ''boot.ipxe'' ''i386'')))
       = [[''a=1'', ''b=2'', ''talos.config=http://10.0.0.5:50084/config?u=${uuid}'',
           ''console=tty0'', ''console=ttyS0'']]"
    by (simp add: r example_options_simps Fields_example Itoa_50084 JoinHostPort_def)
  with NewHandler_example [of True] r(1) show ?thesis by blast
qed

subsection \<open>The responses of the iPXE handler\<close>

text \<open>
  C5. Served on a fresh response writer: a script name other than \<open>init.ipxe\<close> and
  \<open>boot.ipxe\<close> gets status 404 and no body; \<open>init.ipxe\<close> gets the init script of the
  handler with \<open>Content-Type: text/plain\<close> and status 200; \<open>boot.ipxe\<close> makes one call to
  the image factory client and gets, when the call returns the URL \<open>u\<close>, status 200 and
  the body \<open>#!ipxe\<close>, newline, \<open>chain --replace u\<close>, newline, and when the call fails,
  status 500 and a body that ends with the message of the error.
\<close>

theorem ServeHTTP_response:
  "(PathValue_script req \<noteq> initScriptName \<and> PathValue_script req \<noteq> bootScriptName \<longrightarrow>
      ServeHTTP handler newResponseWriter req
        = (\<lparr>status = Some 404, header = Map.empty, body = []\<rparr>, []))
   \<and> (PathValue_script req = initScriptName \<longrightarrow>
        ServeHTTP handler newResponseWriter req
          = (\<lparr>status = Some 200, header = [''Content-Type'' \<mapsto> ''text/plain''],
              body = initScript handler\<rparr>, []))
   \<and> (PathValue_script req = bootScriptName \<longrightarrow>
        (let arch = (if Query_Get req ''arch'' = ''arm64'' then ''arm64'' else ''amd64'');
             call = \<lparr>call_talosVersion = TalosVersion (options handler), call_arch = arch,
                      call_extensions = Extensions (options handler),
                      call_extraKernelArgs = kernelArgs handler @ consoleKernelArgs arch\<rparr>;
             result = imageFactoryClient handler (call_talosVersion call) (call_arch call)
                        (call_extensions call) (call_extraKernelArgs call)
         in snd (ServeHTTP handler newResponseWriter req) = [call]
          \<and> (\<forall>u. result = Inr u \<longrightarrow>
                fst (ServeHTTP handler newResponseWriter req)
                  = \<lparr>status = Some 200, header = Map.empty,
                      body = ''#!ipxe'' @ [newline] @ ''chain --replace '' @ u @ [newline]\<rparr>)
          \<and> (\<forall>err. result = Inl err \<longrightarrow>
                fst (ServeHTTP handler newResponseWriter req)
                  = \<lparr>status = Some 500, header = Map.empty,
                      body = ''failed to get iPXE script: failed to get schematic IPXE URL: ''
                               @ Error err\<rparr>)))"
proof (intro conjI impI)
  assume "PathValue_script req \<noteq> initScriptName \<and> PathValue_script req \<noteq> bootScriptName"
  then show "ServeHTTP handler newResponseWriter req
        = (\<lparr>status = Some 404, header = Map.empty, body = []\<rparr>, [])"
    by (simp add: ServeHTTP_def WriteHeader_def newResponseWriter_def StatusNotFound_def)
next
  assume "PathValue_script req = initScriptName"
  then show "ServeHTTP handler newResponseWriter req
          = (\<lparr>status = Some 200, header = [''Content-Type'' \<mapsto> ''text/plain''],
              body = initScript handler\<rparr>, [])"
    by (simp add: ServeHTTP_def handleInitScript_def Write_def WriteHeader_def Header_Set_def
        newResponseWriter_def Let_def)
next
  assume b: "PathValue_script req = bootScriptName"
  have ne: "bootScriptName \<noteq> initScriptName"
    by (simp add: bootScriptName_def initScriptName_def)
  show "let arch = (if Query_Get req ''arch'' = ''arm64'' then ''arm64'' else ''amd64'');
             call = \<lparr>call_talosVersion = TalosVersion (options handler), call_arch = arch,
                      call_extensions = Extensions (options handler),
                      call_extraKernelArgs = kernelArgs handler @ consoleKernelArgs arch\<rparr>;
             result = imageFactoryClient handler (call_talosVersion call) (call_arch call)
                        (call_extensions call) (call_extraKernelArgs call)
         in snd (ServeHTTP handler newResponseWriter req) = [call]
          \<and> (\<forall>u. result = Inr u \<longrightarrow>
                fst (ServeHTTP handler newResponseWriter req)
                  = \<lparr>status = Some 200, header = Map.empty,
                      body = ''#!ipxe'' @ [newline] @ ''chain --replace '' @ u @ [newline]\<rparr>)
          \<and> (\<forall>err. result = Inl err \<longrightarrow>
                fst (ServeHTTP handler newResponseWriter req)
                  = \<lparr>status = Some 500, header = Map.empty,
                      body = ''failed to get iPXE script: failed to get schematic IPXE URL: ''
                               @ Error err\<rparr>)"
    using b ne
    by (auto simp: ServeHTTP_def bootViaFactoryIPXEScript_def Let_def Write_def WriteHeader_def
        newResponseWriter_def archArm64_def archAmd64_def StatusOK_def
        StatusInternalServerError_def ipxeScriptTemplateFormat_def split: sum.splits)
qed

theorem ServeHTTP_response_witness:
  "ServeHTTP example_handler newResponseWriter (example_request ''unknown.ipxe'' ''amd64'')
     = (\<lparr>status = Some 404, header = Map.empty, body = []\<rparr>, [])
   \<and> ServeHTTP example_handler newResponseWriter (example_request ''init.ipxe'' ''amd64'')
     = (\<lparr>status = Some 200, header = [''Content-Type'' \<mapsto> ''text/plain''], body = ''#!ipxe''\<rparr>, [])
   \<and> fst (ServeHTTP example_handler newResponseWriter (example_request ''boot.ipxe'' ''i386''))
     = \<lparr>status = Some 200, header = Map.empty,
         body = ''#!ipxe'' @ [newline]
                @ ''chain --replace https://pxe.factory.talos.dev/pxe/3765/v1.10.5/metal-amd64''
                @ [newline]\<rparr>
   \<and> fst (ServeHTTP example_handler newResponseWriter (example_request ''boot.ipxe'' ''arm64''))
     = \<lparr>status = Some 500, header = Map.empty,
         body = ''failed to get iPXE script: failed to get schematic IPXE URL: failed to create schematic: 503''\<rparr>"
proof -
  have r: "PathValue_script (example_request s a) = s" "Query_Get (example_request s a) ''arch'' = a"
    for s a by (simp_all add: example_request_def)
  have h: "initScript example_handler = ''#!ipxe''"
    "imageFactoryClient example_handler ''v1.10.5'' ''amd64'' [] [''a=1'', ''console=tty0'', ''console=ttyS0'']
       = Inr ''https://pxe.factory.talos.dev/pxe/3765/v1.10.5/metal-amd64''"
    "imageFactoryClient example_handler ''v1.10.5'' ''arm64'' [] [''a=1'', ''console=tty0'', ''console=ttyAMA0'']
       = Inl (Errorf ''failed to create schematic: 503'')"
    "TalosVersion (options example_handler) = ''v1.10.5''"
    "Extensions (options example_handler) = []"
    "kernelArgs example_handler = [''a=1'']"
    by (simp_all add: example_handler_def)
  have n: "''unknown.ipxe'' \<noteq> initScriptName" "''unknown.ipxe'' \<noteq> bootScriptName"
    "''init.ipxe'' = initScriptName" "''boot.ipxe'' = bootScriptName"
    by (simp_all add: initScriptName_def bootScriptName_def)
  have 1: "ServeHTTP example_handler newResponseWriter (example_request ''unknown.ipxe'' ''amd64'')
     = (\<lparr>status = Some 404, header = Map.empty, body = []\<rparr>, [])"
    using ServeHTTP_response [of "example_request ''unknown.ipxe'' ''amd64''" example_handler] n
    by (simp add: r)
  have 2: "ServeHTTP example_handler newResponseWriter (example_request ''init.ipxe'' ''amd64'')
     = (\<lparr>status = Some 200, header = [''Content-Type'' \<mapsto> ''text/plain''], body = ''#!ipxe''\<rparr>, [])"
    using ServeHTTP_response [of "example_request ''init.ipxe'' ''amd64''" example_handler] n
    by (simp add: r h)
  have 3: "fst (ServeHTTP example_handler newResponseWriter (example_request ''boot.ipxe'' ''i386''))
     = \<lparr>status = Some 200, header = Map.empty,
         body = ''#!ipxe'' @ [newline]
                @ ''chain --replace https://pxe.factory.talos.dev/pxe/3765/v1.10.5/metal-amd64''
                @ [newline]\<rparr>"
    using ServeHTTP_response [of "example_request ''boot.ipxe'' ''i386''" example_handler] n
    by (simp add: r h consoleKernelArgs_def archArm64_def Let_def)
  have 4: "fst (ServeHTTP example_handler newResponseWriter (example_request ''boot.ipxe'' ''arm64''))
     = \<lparr>status = Some 500, header = Map.empty,
         body = ''failed to get iPXE script: failed to get schematic IPXE URL: failed to create schematic: 503''\<rparr>"
    using ServeHTTP_response [of "example_request ''boot.ipxe'' ''arm64''" example_handler] n
    by (simp add: r h consoleKernelArgs_def archArm64_def Let_def)
  from 1 2 3 4 show ?thesis by blast
qed

subsection \<open>The advertise address\<close>

text \<open>
  With one routable IP and all binaries in place, \<open>Run\<close> gets as far as running its
  components.
\<close>

lemma Run_example:
  "\<exists>s fs'. Run (example_environment (Inr [''10.0.0.5''])) boot_fs (example_server_options [])
              = (Serving s, fs')
           \<and> components s = [''server'', ''TFTP server'', ''DHCP proxy'']
           \<and> initScript (ipxeHandler s) = example_script
           \<and> dhcpProxy s = Some (''10.0.0.5'', 50084, ''10.0.0.5'')"
proof -
  let ?env = "example_environment (Inr [''10.0.0.5''])"
  let ?opts = "example_server_options []"
  let ?client = "\<lambda>talosVersion arch extensions extraKernelArgs.
                   fst (SchematicIPXEURL example_factory
                          \<lparr>pxeBaseURL = ''https://pxe.factory.talos.dev'', secureBootEnabled = False\<rparr>
                          talosVersion arch extensions extraKernelArgs)"
  let ?hopts = "\<lparr>APIAdvertiseAddress = ''10.0.0.5'', TalosVersion = ''v1.10.5'',
                  ExtraKernelArgs = [], Extensions = [''siderolabs/hello-world-service''],
                  APIPort = 50084\<rparr>"
  have d: "determineAPIAdvertiseAddress ?env ?opts = Inr ''10.0.0.5''"
    by (simp add: determineAPIAdvertiseAddress_def example_environment_def
        example_server_options_def)
  from patchBinaries_example obtain fs'
    where p: "patchBinaries example_constants example_zbin boot_fs example_script = (None, fs')"
    by blast
  then have "patchBinaries example_constants example_zbin boot_fs
      (bootTemplate (APIAdvertiseAddress ?hopts) (Itoa (APIPort ?hopts)) ''ipxe/boot.ipxe'')
      = (None, fs')"
    by (simp add: Itoa_50084 example_script_def)
  from NewHandler_ok [OF this, of False ?client] obtain handler
    where n: "NewHandler example_constants example_zbin boot_fs False ?client ?hopts
               = (Inr handler, fs')"
    by blast
  from NewHandler_success(1) [OF n] have i: "initScript handler = example_script"
    by (simp add: Itoa_50084 example_script_def)
  have "Run ?env boot_fs ?opts
          = (Serving \<lparr>components = [''server'', ''TFTP server'', ''DHCP proxy''],
                      ipxeHandler = handler, configHandler = None,
                      dhcpProxy = Some (''10.0.0.5'', 50084, ''10.0.0.5'')\<rparr>, fs')"
    using d n
    by (simp add: Run_def example_environment_def example_server_options_def Let_def)
  with i show ?thesis by simp
qed

text \<open>
  C6. An explicit advertise address is returned unchanged. Without one, the operation
  returns an IP exactly when the list of routable IPs consists of that one IP, and it
  returns an error when the number of routable IPs differs from one or the list cannot
  be obtained. On an error, Run returns at once with the wrapped error: nothing has been
  written and no component is started.
\<close>

theorem determineAPIAdvertiseAddress_contract:
  "(Options.APIAdvertiseAddress opts \<noteq> [] \<longrightarrow>
      determineAPIAdvertiseAddress env opts = Inr (Options.APIAdvertiseAddress opts))
   \<and> (Options.APIAdvertiseAddress opts = [] \<longrightarrow>
        (\<forall>ip. determineAPIAdvertiseAddress env opts = Inr ip \<longleftrightarrow> RoutableIPs env = Inr [ip])
      \<and> (\<forall>ips. RoutableIPs env = Inr ips \<and> length ips \<noteq> 1 \<longrightarrow>
             (\<exists>err. determineAPIAdvertiseAddress env opts = Inl err))
      \<and> (\<forall>e. RoutableIPs env = Inl e \<longrightarrow>
             (\<exists>err. determineAPIAdvertiseAddress env opts = Inl err)))
   \<and> (\<forall>err. determineAPIAdvertiseAddress env opts = Inl err \<longrightarrow>
        Run env fs opts
          = (Aborted (RunError (Errorf (''failed to determine API advertise address: ''
                                          @ Error err))), fs))"
proof (intro conjI impI allI)
  assume "Options.APIAdvertiseAddress opts \<noteq> []"
  then show "determineAPIAdvertiseAddress env opts = Inr (Options.APIAdvertiseAddress opts)"
    by (simp add: determineAPIAdvertiseAddress_def)
next
  fix ip
  assume e: "Options.APIAdvertiseAddress opts = []"
  show "determineAPIAdvertiseAddress env opts = Inr ip \<longleftrightarrow> RoutableIPs env = Inr [ip]"
  proof (cases "RoutableIPs env")
    case (Inl a)
    with e show ?thesis by (simp add: determineAPIAdvertiseAddress_def)
  next
    case (Inr ips)
    show ?thesis
    proof (cases ips)
      case Nil
      with e Inr show ?thesis by (simp add: determineAPIAdvertiseAddress_def)
    next
      case (Cons x xs)
      with e Inr show ?thesis by (cases xs) (auto simp: determineAPIAdvertiseAddress_def)
    qed
  qed
next
  fix ips
  assume "Options.APIAdvertiseAddress opts = []" "RoutableIPs env = Inr ips \<and> length ips \<noteq> 1"
  then show "\<exists>err. determineAPIAdvertiseAddress env opts = Inl err"
    by (simp add: determineAPIAdvertiseAddress_def)
next
  fix e
  assume "Options.APIAdvertiseAddress opts = []" "RoutableIPs env = Inl e"
  then show "\<exists>err. determineAPIAdvertiseAddress env opts = Inl err"
    by (simp add: determineAPIAdvertiseAddress_def)
next
  fix err
  assume "determineAPIAdvertiseAddress env opts = Inl err"
  then show "Run env fs opts
          = (Aborted (RunError (Errorf (''failed to determine API advertise address: ''
                                          @ Error err))), fs)"
    by (simp add: Run_def)
qed

theorem determineAPIAdvertiseAddress_contract_witness:
  "Options.APIAdvertiseAddress (example_server_options ''10.0.0.5'') \<noteq> []
   \<and> determineAPIAdvertiseAddress (example_environment (Inr [''192.168.1.2'', ''10.0.0.7'']))
        (example_server_options ''10.0.0.5'') = Inr ''10.0.0.5''
   \<and> Options.APIAdvertiseAddress (example_server_options []) = []
   \<and> RoutableIPs (example_environment (Inr [''192.168.1.2''])) = Inr [''192.168.1.2'']
   \<and> determineAPIAdvertiseAddress (example_environment (Inr [''192.168.1.2'']))
        (example_server_options []) = Inr ''192.168.1.2''
   \<and> RoutableIPs (example_environment (Inr [''192.168.1.2'', ''10.0.0.7'']))
        = Inr [''192.168.1.2'', ''10.0.0.7'']
   \<and> length [''192.168.1.2'', ''10.0.0.7''] \<noteq> 1
   \<and> determineAPIAdvertiseAddress (example_environment (Inr [''192.168.1.2'', ''10.0.0.7'']))
        (example_server_options [])
       = Inl (Errorf ''expected exactly one routable IP, got 2: [192.168.1.2 10.0.0.7]. specify API advertise address explicitly'')
   \<and> Run (example_environment (Inr [''192.168.1.2'', ''10.0.0.7''])) boot_fs (example_server_options [])
       = (Aborted (RunError (Errorf ''failed to determine API advertise address: expected exactly one routable IP, got 2: [192.168.1.2 10.0.0.7]. specify API advertise address explicitly'')),
          boot_fs)
   \<and> (\<exists>err. determineAPIAdvertiseAddress (example_environment (Inr [])) (example_server_options [])
               = Inl err)"
proof -
  have a: "Options.APIAdvertiseAddress (example_server_options x) = x" for x
    by (simp add: example_server_options_def)
  have r: "RoutableIPs (example_environment ips) = ips" for ips
    by (simp add: example_environment_def)
  have two: "determineAPIAdvertiseAddress (example_environment (Inr [''192.168.1.2'', ''10.0.0.7'']))
        (example_server_options [])
       = Inl (Errorf ''expected exactly one routable IP, got 2: [192.168.1.2 10.0.0.7]. specify API advertise address explicitly'')"
    by (simp add: determineAPIAdvertiseAddress_def a r Itoa_def dec_digits.simps)
  note t1 = determineAPIAdvertiseAddress_contract
    [of "example_server_options ''10.0.0.5''" "example_environment (Inr [''192.168.1.2'', ''10.0.0.7''])"]
  note t2 = determineAPIAdvertiseAddress_contract
    [of "example_server_options []" "example_environment (Inr [''192.168.1.2''])"]
  note t3 = determineAPIAdvertiseAddress_contract
    [of "example_server_options []" "example_environment (Inr [''192.168.1.2'', ''10.0.0.7''])" boot_fs]
  note t4 = determineAPIAdvertiseAddress_contract
    [of "example_server_options []" "example_environment (Inr [])"]
  have 1: "determineAPIAdvertiseAddress (example_environment (Inr [''192.168.1.2'', ''10.0.0.7'']))
        (example_server_options ''10.0.0.5'') = Inr ''10.0.0.5''"
    using t1 by (simp add: a)
  have 2: "determineAPIAdvertiseAddress (example_environment (Inr [''192.168.1.2'']))
        (example_server_options []) = Inr ''192.168.1.2''"
    using t2 by (simp add: a r)
  have 3: "Run (example_environment (Inr [''192.168.1.2'', ''10.0.0.7''])) boot_fs (example_server_options [])
       = (Aborted (RunError (Errorf ''failed to determine API advertise address: expected exactly one routable IP, got 2: [192.168.1.2 10.0.0.7]. specify API advertise address explicitly'')),
          boot_fs)"
    using t3 two by simp
  have 4: "\<exists>err. determineAPIAdvertiseAddress (example_environment (Inr [])) (example_server_options [])
               = Inl err"
    using t4 by (simp add: a r)
  from 1 2 two 3 4 show ?thesis by (simp add: a r)
qed

subsection \<open>The files written by patchBinaries\<close>

lemma patchScript_inv:
  assumes "patchScript fs source destination script = (None, fs')"
  shows "\<exists>contents out. files fs source = Some contents \<and> patch_result contents script = Some out
           \<and> fs' = fs\<lparr>files := (files fs)(destination \<mapsto> out)\<rparr>"
proof -
  from assms obtain contents where c: "files fs source = Some contents"
    by (cases "files fs source") (auto simp: patchScript_def)
  from patchScript_success [OF c assms] obtain start e
    where "first_at placeholderStart contents start" "first_at placeholderEnd contents e"
      "start \<le> e" "length script \<le> e + length placeholderEnd - start"
      "fs' = fs\<lparr>files := (files fs)(destination \<mapsto>
                        patched contents start (e + length placeholderEnd - start) script)\<rparr>"
    by blast
  then have "patch_result contents script
               = Some (patched contents start (e + length placeholderEnd - start) script)
             \<and> fs' = fs\<lparr>files := (files fs)(destination \<mapsto>
                        patched contents start (e + length placeholderEnd - start) script)\<rparr>"
    by (simp add: patch_result_def index_from_first_at [symmetric])
  with c show ?thesis by blast
qed

lemma compressKPXE_inv:
  assumes "compressKPXE zb fs binFile infoFile outFile = (None, fs')"
  shows "\<exists>z. zb (((files fs)(outFile \<mapsto> [])) binFile) (((files fs)(outFile \<mapsto> [])) infoFile) = ZbinDone z
           \<and> fs' = fs\<lparr>files := (files fs)(outFile \<mapsto> z)\<rparr>"
  using assms
  by (auto simp: compressKPXE_def Let_def split: if_splits zbin_result.splits)

lemma patchEFI_inv:
  assumes "patchEFI k fs s [''ipxe'', ''snp''] = (None, fs4)"
  shows "\<exists>fs1 fs2 fs3.
           patchScript fs (IPXEPath k @ ''/amd64/ipxe.efi'') (TFTPPath k @ ''/ipxe.efi'') s = (None, fs1)
         \<and> patchScript fs1 (IPXEPath k @ ''/arm64/ipxe.efi'') (TFTPPath k @ ''/ipxe-arm64.efi'') s = (None, fs2)
         \<and> patchScript fs2 (IPXEPath k @ ''/amd64/snp.efi'') (TFTPPath k @ ''/snp.efi'') s = (None, fs3)
         \<and> patchScript fs3 (IPXEPath k @ ''/arm64/snp.efi'') (TFTPPath k @ ''/snp-arm64.efi'') s = (None, fs4)"
  using assms
  by (auto split: prod.splits option.splits)

lemma patchBinaries_inv:
  assumes "patchBinaries k zb fs s = (None, fs')"
  shows "\<exists>fs4 fs5 fs6.
           patchEFI k fs s [''ipxe'', ''snp''] = (None, fs4)
         \<and> patchScript fs4 (IPXEPath k @ ''/amd64/kpxe/undionly.kpxe.bin'')
               (IPXEPath k @ ''/amd64/kpxe/undionly.kpxe.bin.patched'') s = (None, fs5)
         \<and> compressKPXE zb fs5 (IPXEPath k @ ''/amd64/kpxe/undionly.kpxe.bin.patched'')
               (IPXEPath k @ ''/amd64/kpxe/undionly.kpxe.zinfo'') (TFTPPath k @ ''/undionly.kpxe'')
               = (None, fs6)
         \<and> compressKPXE zb fs6 (IPXEPath k @ ''/amd64/kpxe/undionly.kpxe.bin.patched'')
               (IPXEPath k @ ''/amd64/kpxe/undionly.kpxe.zinfo'') (TFTPPath k @ ''/undionly.kpxe.0'')
               = (None, fs')"
  using assms
  by (auto simp: patchBinaries_def split: prod.splits option.splits)

lemma patch_result_region:
  assumes "patch_result contents script = Some out"
  shows "\<exists>start e. first_at placeholderStart contents start \<and> first_at placeholderEnd contents e
           \<and> start \<le> e \<and> length out = length contents
           \<and> take (e + length placeholderEnd - start) (drop start out)
               = script @ replicate (e + length placeholderEnd - start - length script) newline"
proof -
  from assms obtain start e where
    i: "index_from contents placeholderStart = Some start" "index_from contents placeholderEnd = Some e"
    and le: "start \<le> e" and ls: "length script \<le> e + length placeholderEnd - start"
    and out: "out = patched contents start (e + length placeholderEnd - start) script"
    by (auto simp: patch_result_def split: option.splits if_splits)
  from i have f: "first_at placeholderStart contents start" "first_at placeholderEnd contents e"
    by (simp_all add: index_from_first_at)
  have bound: "start + (e + length placeholderEnd - start) \<le> length contents"
    using f(2) le by (simp add: first_at_def occurs_at_def)
  from f le patched_length [OF bound ls] patched_inside [OF bound ls] show ?thesis
    unfolding out by blast
qed

lemma handleInitScript_body:
  "PathValue_script req = initScriptName \<Longrightarrow>
   fst (ServeHTTP handler newResponseWriter req)
     = \<lparr>status = Some 200, header = [''Content-Type'' \<mapsto> ''text/plain''],
         body = initScript handler\<rparr>"
  by (simp add: ServeHTTP_def handleInitScript_def Write_def WriteHeader_def Header_Set_def
      newResponseWriter_def Let_def)

lemma patchBinaries_files:
  assumes ok: "patchBinaries k zb fs s = (None, fs')"
    and d: "distinct (artifact_paths k)"
  shows "(\<forall>(src, dst) \<in> set (patch_targets k).
            \<exists>contents out. files fs src = Some contents \<and> patch_result contents s = Some out
               \<and> files fs' dst = Some out)
       \<and> (\<forall>outFile \<in> set (compress_targets k).
            \<exists>z. zb (files fs' (IPXEPath k @ ''/amd64/kpxe/undionly.kpxe.bin.patched''))
                    (files fs (IPXEPath k @ ''/amd64/kpxe/undionly.kpxe.zinfo'')) = ZbinDone z
               \<and> files fs' outFile = Some z)"
proof -
  define p1 where "p1 = IPXEPath k @ ''/amd64/ipxe.efi''"
  define p2 where "p2 = IPXEPath k @ ''/arm64/ipxe.efi''"
  define p3 where "p3 = IPXEPath k @ ''/amd64/snp.efi''"
  define p4 where "p4 = IPXEPath k @ ''/arm64/snp.efi''"
  define p5 where "p5 = IPXEPath k @ ''/amd64/kpxe/undionly.kpxe.bin''"
  define zi where "zi = IPXEPath k @ ''/amd64/kpxe/undionly.kpxe.zinfo''"
  define d1 where "d1 = TFTPPath k @ ''/ipxe.efi''"
  define d2 where "d2 = TFTPPath k @ ''/ipxe-arm64.efi''"
  define d3 where "d3 = TFTPPath k @ ''/snp.efi''"
  define d4 where "d4 = TFTPPath k @ ''/snp-arm64.efi''"
  define d5 where "d5 = IPXEPath k @ ''/amd64/kpxe/undionly.kpxe.bin.patched''"
  define o1 where "o1 = TFTPPath k @ ''/undionly.kpxe''"
  define o2 where "o2 = TFTPPath k @ ''/undionly.kpxe.0''"
  note defs = p1_def p2_def p3_def p4_def p5_def zi_def d1_def d2_def d3_def d4_def d5_def
    o1_def o2_def
  have targets: "patch_targets k = [(p1, d1), (p2, d2), (p3, d3), (p4, d4), (p5, d5)]"
    "compress_targets k = [o1, o2]"
    by (simp_all add: patch_targets_def compress_targets_def defs)
  have dist: "distinct [p1, p2, p3, p4, p5, zi, d1, d2, d3, d4, d5, o1, o2]"
    using d by (simp add: artifact_paths_def patch_targets_def compress_targets_def defs)
  from patchBinaries_inv [OF ok] obtain fs4 fs5 fs6 where
    efi: "patchEFI k fs s [''ipxe'', ''snp''] = (None, fs4)"
    and s5: "patchScript fs4 p5 d5 s = (None, fs5)"
    and c1: "compressKPXE zb fs5 d5 zi o1 = (None, fs6)"
    and c2: "compressKPXE zb fs6 d5 zi o2 = (None, fs')"
    unfolding defs by blast
  from patchEFI_inv [OF efi] obtain fs1 fs2 fs3 where
    s1: "patchScript fs p1 d1 s = (None, fs1)"
    and s2: "patchScript fs1 p2 d2 s = (None, fs2)"
    and s3: "patchScript fs2 p3 d3 s = (None, fs3)"
    and s4: "patchScript fs3 p4 d4 s = (None, fs4)"
    unfolding defs by blast
  from patchScript_inv [OF s1] obtain c1' a1 where
    r1: "files fs p1 = Some c1'" "patch_result c1' s = Some a1"
      "fs1 = fs\<lparr>files := (files fs)(d1 \<mapsto> a1)\<rparr>" by blast
  from patchScript_inv [OF s2] obtain c2' a2 where
    r2: "files fs1 p2 = Some c2'" "patch_result c2' s = Some a2"
      "fs2 = fs1\<lparr>files := (files fs1)(d2 \<mapsto> a2)\<rparr>" by blast
  from patchScript_inv [OF s3] obtain c3' a3 where
    r3: "files fs2 p3 = Some c3'" "patch_result c3' s = Some a3"
      "fs3 = fs2\<lparr>files := (files fs2)(d3 \<mapsto> a3)\<rparr>" by blast
  from patchScript_inv [OF s4] obtain c4' a4 where
    r4: "files fs3 p4 = Some c4'" "patch_result c4' s = Some a4"
      "fs4 = fs3\<lparr>files := (files fs3)(d4 \<mapsto> a4)\<rparr>" by blast
  from patchScript_inv [OF s5] obtain c5' a5 where
    r5: "files fs4 p5 = Some c5'" "patch_result c5' s = Some a5"
      "fs5 = fs4\<lparr>files := (files fs4)(d5 \<mapsto> a5)\<rparr>" by blast
  from compressKPXE_inv [OF c1] obtain z1 where
    k1: "zb (((files fs5)(o1 \<mapsto> [])) d5) (((files fs5)(o1 \<mapsto> [])) zi) = ZbinDone z1"
      "fs6 = fs5\<lparr>files := (files fs5)(o1 \<mapsto> z1)\<rparr>" by blast
  from compressKPXE_inv [OF c2] obtain z2 where
    k2: "zb (((files fs6)(o2 \<mapsto> [])) d5) (((files fs6)(o2 \<mapsto> [])) zi) = ZbinDone z2"
      "fs' = fs6\<lparr>files := (files fs6)(o2 \<mapsto> z2)\<rparr>" by blast
  have f1: "files fs1 = (files fs)(d1 \<mapsto> a1)" by (simp add: r1(3))
  have f2: "files fs2 = (files fs)(d1 \<mapsto> a1, d2 \<mapsto> a2)" by (simp add: r2(3) f1)
  have f3: "files fs3 = (files fs)(d1 \<mapsto> a1, d2 \<mapsto> a2, d3 \<mapsto> a3)" by (simp add: r3(3) f2)
  have f4: "files fs4 = (files fs)(d1 \<mapsto> a1, d2 \<mapsto> a2, d3 \<mapsto> a3, d4 \<mapsto> a4)"
    by (simp add: r4(3) f3)
  have f5: "files fs5 = (files fs)(d1 \<mapsto> a1, d2 \<mapsto> a2, d3 \<mapsto> a3, d4 \<mapsto> a4, d5 \<mapsto> a5)"
    by (simp add: r5(3) f4)
  have f6: "files fs6 = (files fs)(d1 \<mapsto> a1, d2 \<mapsto> a2, d3 \<mapsto> a3, d4 \<mapsto> a4, d5 \<mapsto> a5, o1 \<mapsto> z1)"
    by (simp add: k1(2) f5)
  have f7: "files fs' = (files fs)(d1 \<mapsto> a1, d2 \<mapsto> a2, d3 \<mapsto> a3, d4 \<mapsto> a4, d5 \<mapsto> a5,
                                   o1 \<mapsto> z1, o2 \<mapsto> z2)"
    by (simp add: k2(2) f6)
  have q1: "files fs p1 = Some c1'" by (rule r1(1))
  have q2: "files fs p2 = Some c2'" using r2(1) dist by (simp add: f1)
  have q3: "files fs p3 = Some c3'" using r3(1) dist by (simp add: f2)
  have q4: "files fs p4 = Some c4'" using r4(1) dist by (simp add: f3)
  have q5: "files fs p5 = Some c5'" using r5(1) dist by (simp add: f4)
  have e1: "files fs' d1 = Some a1" using dist by (simp add: f7)
  have e2: "files fs' d2 = Some a2" using dist by (simp add: f7)
  have e3: "files fs' d3 = Some a3" using dist by (simp add: f7)
  have e4: "files fs' d4 = Some a4" using dist by (simp add: f7)
  have e5: "files fs' d5 = Some a5" using dist by (simp add: f7)
  have g1: "files fs' o1 = Some z1" using dist by (simp add: f7)
  have g2: "files fs' o2 = Some z2" using dist by (simp add: f7)
  have h1: "zb (files fs' d5) (files fs zi) = ZbinDone z1"
    using k1(1) dist by (simp add: f5 e5)
  have h2: "zb (files fs' d5) (files fs zi) = ZbinDone z2"
    using k2(1) dist by (simp add: f6 e5)
  have A: "\<forall>(src, dst) \<in> set (patch_targets k).
            \<exists>contents out. files fs src = Some contents \<and> patch_result contents s = Some out
               \<and> files fs' dst = Some out"
    unfolding targets
    using q1 q2 q3 q4 q5 r1(2) r2(2) r3(2) r4(2) r5(2) e1 e2 e3 e4 e5 by simp
  have B: "\<forall>outFile \<in> set (compress_targets k).
            \<exists>z. zb (files fs' d5) (files fs zi) = ZbinDone z \<and> files fs' outFile = Some z"
    unfolding targets using h1 h2 g1 g2 by simp
  from A B show ?thesis unfolding d5_def zi_def by blast
qed

subsection \<open>One init script for the binaries and for HTTP\<close>

lemma patch_result_example:
  "patch_result example_efi example_script = Some (patched example_efi 0 1040 example_script)"
proof -
  have "index_from example_efi placeholderStart = Some 0"
    "index_from example_efi placeholderEnd = Some 1021"
    using example_efi_start example_efi_end by (simp_all add: index_from_first_at)
  then show ?thesis
    by (simp add: patch_result_def example_script_length placeholderEnd_def)
qed

lemma example_paths_distinct: "distinct (artifact_paths example_constants)"
  by (simp add: artifact_paths_def patch_targets_def compress_targets_def example_constants_def)

text \<open>
  C10. For a handler that NewHandler has constructed, the init script of the handler is
  the script rendered from the advertise address and the port of the options; it is the
  script that was handed to patchBinaries, and it is the body served for \<open>init.ipxe\<close>.
  When the paths of the artifacts are pairwise distinct, every patched binary on disk is
  its source with the placeholder region replaced by this script and its padding, and
  each compressed BIOS image is the output of zbin on the binary patched so.
\<close>

theorem init_script_identity:
  assumes "NewHandler k zb fs configServerEnabled client opts = (Inr handler, fs')"
  shows "buildInitScript (APIAdvertiseAddress opts) (APIPort opts) = Inr (initScript handler)
       \<and> patchBinaries k zb fs (initScript handler) = (None, fs')
       \<and> (PathValue_script req = initScriptName \<longrightarrow>
            body (fst (ServeHTTP handler newResponseWriter req)) = initScript handler)
       \<and> (distinct (artifact_paths k) \<longrightarrow>
            (\<forall>(src, dst) \<in> set (patch_targets k).
               \<exists>contents out. files fs src = Some contents
                  \<and> patch_result contents (initScript handler) = Some out
                  \<and> files fs' dst = Some out)
          \<and> (\<forall>outFile \<in> set (compress_targets k).
               \<exists>z. zb (files fs' (IPXEPath k @ ''/amd64/kpxe/undionly.kpxe.bin.patched''))
                       (files fs (IPXEPath k @ ''/amd64/kpxe/undionly.kpxe.zinfo'')) = ZbinDone z
                  \<and> files fs' outFile = Some z))"
proof -
  note h = NewHandler_success [OF assms(1)]
  have served: "PathValue_script req = initScriptName \<longrightarrow>
            body (fst (ServeHTTP handler newResponseWriter req)) = initScript handler"
    by (simp add: handleInitScript_body)
  from h(2) h(3) served patchBinaries_files [OF h(3)] show ?thesis by blast
qed

theorem init_script_identity_witness:
  "NewHandler example_constants example_zbin boot_fs True example_factory_client example_options
     = (Inr (boot_handler True),
        snd (NewHandler example_constants example_zbin boot_fs True example_factory_client
               example_options))
   \<and> distinct (artifact_paths example_constants)
   \<and> PathValue_script (example_request ''init.ipxe'' []) = initScriptName
   \<and> buildInitScript ''10.0.0.5'' 50084 = Inr example_script
   \<and> body (fst (ServeHTTP (boot_handler True) newResponseWriter (example_request ''init.ipxe'' [])))
       = example_script
   \<and> files (snd (NewHandler example_constants example_zbin boot_fs True example_factory_client
                    example_options)) ''/var/lib/tftp/ipxe.efi''
       = Some (patched example_efi 0 1040 example_script)
   \<and> files (snd (NewHandler example_constants example_zbin boot_fs True example_factory_client
                    example_options)) ''/var/lib/tftp/snp-arm64.efi''
       = Some (patched example_efi 0 1040 example_script)
   \<and> files (snd (NewHandler example_constants example_zbin boot_fs True example_factory_client
                    example_options)) ''/var/lib/tftp/undionly.kpxe''
       = Some (''zbin'' @ patched example_efi 0 1040 example_script)"
proof -
  define fs' where "fs' = snd (NewHandler example_constants example_zbin boot_fs True
                                 example_factory_client example_options)"
  have n: "NewHandler example_constants example_zbin boot_fs True example_factory_client
             example_options = (Inr (boot_handler True), fs')"
    unfolding fs'_def by (rule NewHandler_example)
  have r: "PathValue_script (example_request ''init.ipxe'' []) = initScriptName"
    by (simp add: example_request_def initScriptName_def)
  have i: "initScript (boot_handler True) = example_script"
    by (simp add: boot_handler_def)
  note t = init_script_identity [OF n, of "example_request ''init.ipxe'' []", unfolded i]
  have b: "buildInitScript ''10.0.0.5'' 50084 = Inr example_script"
    using t by (simp add: example_options_simps)
  have s: "body (fst (ServeHTTP (boot_handler True) newResponseWriter (example_request ''init.ipxe'' [])))
       = example_script"
    using t r by blast
  have src: "files boot_fs ''/var/lib/ipxe/amd64/ipxe.efi'' = Some example_efi"
    "files boot_fs ''/var/lib/ipxe/arm64/snp.efi'' = Some example_efi"
    "files boot_fs ''/var/lib/ipxe/amd64/kpxe/undionly.kpxe.bin'' = Some example_efi"
    "files boot_fs ''/var/lib/ipxe/amd64/kpxe/undionly.kpxe.zinfo'' = Some ''zinfo''"
    by (simp_all add: boot_fs_def)
  have p: "\<forall>(src, dst) \<in> set (patch_targets example_constants).
            \<exists>contents out. files boot_fs src = Some contents
               \<and> patch_result contents example_script = Some out
               \<and> files fs' dst = Some out"
    using t example_paths_distinct by blast
  have e1: "files fs' ''/var/lib/tftp/ipxe.efi'' = Some (patched example_efi 0 1040 example_script)"
    using p src patch_result_example
    by (auto simp: patch_targets_def example_constants_def)
  have e2: "files fs' ''/var/lib/tftp/snp-arm64.efi'' = Some (patched example_efi 0 1040 example_script)"
    using p src patch_result_example
    by (auto simp: patch_targets_def example_constants_def)
  have e3: "files fs' ''/var/lib/ipxe/amd64/kpxe/undionly.kpxe.bin.patched''
              = Some (patched example_efi 0 1040 example_script)"
    using p src patch_result_example
    by (auto simp: patch_targets_def example_constants_def)
  have c: "\<forall>outFile \<in> set (compress_targets example_constants).
            \<exists>z. example_zbin (files fs' (IPXEPath example_constants @ ''/amd64/kpxe/undionly.kpxe.bin.patched''))
                    (files boot_fs (IPXEPath example_constants @ ''/amd64/kpxe/undionly.kpxe.zinfo'')) = ZbinDone z
               \<and> files fs' outFile = Some z"
    using t example_paths_distinct by blast
  have e4: "files fs' ''/var/lib/tftp/undionly.kpxe''
              = Some (''zbin'' @ patched example_efi 0 1040 example_script)"
    using c e3 src(4)
    by (auto simp: compress_targets_def example_constants_def example_zbin_def)
  from n example_paths_distinct r b s e1 e2 e4 show ?thesis
    unfolding fs'_def by blast
qed

subsection \<open>Precedence of the extra kernel arguments\<close>

text \<open>
  C7. The effective extra kernel arguments are the flag value when it is non-empty,
  otherwise the environment value when it is non-empty, otherwise the positional
  arguments joined with single spaces, which is the empty string when there are none.
\<close>

theorem getExtraKernelArgs_precedence:
  "getExtraKernelArgs flagValue kernelArgsEnv args =
     (if flagValue \<noteq> [] then flagValue
      else if kernelArgsEnv \<noteq> [] then kernelArgsEnv
      else Join args '' '')
   \<and> Join [] '' '' = []
   \<and> Join [a] '' '' = a
   \<and> Join (a # b # bs) '' '' = a @ '' '' @ Join (b # bs) '' ''"
  by (simp add: getExtraKernelArgs_def)

theorem getExtraKernelArgs_precedence_witness:
  "getExtraKernelArgs ''a=1'' ''b=2'' [''c=3''] = ''a=1''
   \<and> getExtraKernelArgs [] ''b=2'' [''c=3''] = ''b=2''
   \<and> getExtraKernelArgs [] [] [''c=3'', ''d=4''] = ''c=3 d=4''
   \<and> getExtraKernelArgs [] [] [] = []"
  using getExtraKernelArgs_precedence [of "''a=1''" "''b=2''" "[''c=3'']"]
    getExtraKernelArgs_precedence [of "[]" "''b=2''" "[''c=3'']"]
    getExtraKernelArgs_precedence [of "[]" "[]" "[''c=3'', ''d=4'']"]
    getExtraKernelArgs_precedence [of "[]" "[]" "[]"]
  by simp

subsection \<open>The replies of the DHCP proxy\<close>

text \<open>
  C9. Every reply of the proxy has \<open>yiaddr\<close> 0.0.0.0, the vendor class identifier
  \<open>PXEClient\<close> and the advertise address as next server. The request then carries one of
  the architecture values 0x0000, 0x0006, 0x0007, 0x0009 and 0x000b in option 93, and the
  boot file name is the URL of the init script when the user class is \<open>iPXE\<close>, and
  otherwise \<open>undionly.kpxe\<close> for BIOS x86, \<open>ipxe.efi\<close> for EFI x86_64 and \<open>ipxe-arm64.efi\<close>
  for EFI arm64. A packet with any other architecture value is ignored.
\<close>

theorem proxy_only_invariant:
  "(\<forall>r. proxy_reply p pkt = Some r \<longrightarrow>
       yiaddr r = ''0.0.0.0''
     \<and> vendor_class r = Some ''PXEClient''
     \<and> siaddr r = proxy_advertise p
     \<and> (\<exists>a. client_arch pkt = Some a \<and> a \<in> {0x0000, 0x0006, 0x0007, 0x0009, 0x000b}
           \<and> bootfile r =
               (if user_class pkt = Some ''iPXE''
                then ''http://'' @ proxy_advertise p @ '':'' @ Itoa (proxy_port p)
                       @ ''/ipxe/init.ipxe''
                else if a \<in> {0x0000, 0x0006} then ''undionly.kpxe''
                else if a \<in> {0x0007, 0x0009} then ''ipxe.efi''
                else ''ipxe-arm64.efi'')))
   \<and> (\<forall>a. client_arch pkt = Some a \<and> a \<notin> {0x0000, 0x0006, 0x0007, 0x0009, 0x000b} \<longrightarrow>
          proxy_reply p pkt = None)"
proof (intro conjI allI impI)
  fix r
  assume r: "proxy_reply p pkt = Some r"
  then obtain t a fw where t: "reply_type (msg_type pkt) = Some t"
    and a: "client_arch pkt = Some a" and fw: "firmware_of_arch a = Some fw"
    by (auto simp: proxy_reply_def split: option.splits)
  from r t a fw have req: "r = \<lparr>msg_type = t, xid = xid pkt, flags = flags pkt, chaddr = chaddr pkt,
                          yiaddr = ''0.0.0.0'', siaddr = proxy_advertise p,
                          bootfile = boot_filename p fw (user_class pkt),
                          client_arch = None, user_class = None,
                          vendor_class = Some ''PXEClient'',
                          server_identifier = Some (proxy_advertise p),
                          client_identifier = client_identifier pkt,
                          uuid_guid = uuid_guid pkt\<rparr>"
    by (simp add: proxy_reply_def)
  show "yiaddr r = ''0.0.0.0''" "vendor_class r = Some ''PXEClient''"
    "siaddr r = proxy_advertise p"
    by (simp_all add: req)
  from fw have ain: "a \<in> {0x0000, 0x0006, 0x0007, 0x0009, 0x000b}"
    by (auto simp: firmware_of_arch_def split: if_splits)
  from fw have bf: "bootfile r =
               (if user_class pkt = Some ''iPXE''
                then ''http://'' @ proxy_advertise p @ '':'' @ Itoa (proxy_port p)
                       @ ''/ipxe/init.ipxe''
                else if a \<in> {0x0000, 0x0006} then ''undionly.kpxe''
                else if a \<in> {0x0007, 0x0009} then ''ipxe.efi''
                else ''ipxe-arm64.efi'')"
    by (auto simp: req boot_filename_def firmware_of_arch_def split: if_splits)
  from a ain bf show "\<exists>a. client_arch pkt = Some a \<and> a \<in> {0x0000, 0x0006, 0x0007, 0x0009, 0x000b}
           \<and> bootfile r =
               (if user_class pkt = Some ''iPXE''
                then ''http://'' @ proxy_advertise p @ '':'' @ Itoa (proxy_port p)
                       @ ''/ipxe/init.ipxe''
                else if a \<in> {0x0000, 0x0006} then ''undionly.kpxe''
                else if a \<in> {0x0007, 0x0009} then ''ipxe.efi''
                else ''ipxe-arm64.efi'')"
    by blast
next
  fix a
  assume "client_arch pkt = Some a \<and> a \<notin> {0x0000, 0x0006, 0x0007, 0x0009, 0x000b}"
  then show "proxy_reply p pkt = None"
    by (auto simp: proxy_reply_def firmware_of_arch_def split: option.splits)
qed

lemma example_offer:
  "proxy_reply example_proxy (example_discover 0x0000 None)
     = Some \<lparr>msg_type = OFFER, xid = 0x3903F326, flags = 0x8000,
             chaddr = [0xAA, 0xBB, 0xCC, 0xDD, 0xEE, 0xFF],
             yiaddr = ''0.0.0.0'', siaddr = ''10.0.0.5'', bootfile = ''undionly.kpxe'',
             client_arch = None, user_class = None, vendor_class = Some ''PXEClient'',
             server_identifier = Some ''10.0.0.5'', client_identifier = None, uuid_guid = None\<rparr>"
  by (simp add: proxy_reply_def example_discover_def example_proxy_def reply_type_def
      firmware_of_arch_def boot_filename_def)

lemma example_offer_ipxe:
  "proxy_reply example_proxy (example_discover 0x0007 (Some ''iPXE''))
     = Some \<lparr>msg_type = OFFER, xid = 0x3903F326, flags = 0x8000,
             chaddr = [0xAA, 0xBB, 0xCC, 0xDD, 0xEE, 0xFF],
             yiaddr = ''0.0.0.0'', siaddr = ''10.0.0.5'',
             bootfile = ''http://10.0.0.5:50084/ipxe/init.ipxe'',
             client_arch = None, user_class = None, vendor_class = Some ''PXEClient'',
             server_identifier = Some ''10.0.0.5'', client_identifier = None, uuid_guid = None\<rparr>"
  by (simp add: proxy_reply_def example_discover_def example_proxy_def reply_type_def
      firmware_of_arch_def boot_filename_def Itoa_50084)

theorem proxy_only_invariant_witness:
  "proxy_reply example_proxy (example_discover 0x0000 None)
     = Some \<lparr>msg_type = OFFER, xid = 0x3903F326, flags = 0x8000,
             chaddr = [0xAA, 0xBB, 0xCC, 0xDD, 0xEE, 0xFF],
             yiaddr = ''0.0.0.0'', siaddr = ''10.0.0.5'', bootfile = ''undionly.kpxe'',
             client_arch = None, user_class = None, vendor_class = Some ''PXEClient'',
             server_identifier = Some ''10.0.0.5'', client_identifier = None, uuid_guid = None\<rparr>
   \<and> (\<exists>r. proxy_reply example_proxy (example_discover 0x0007 (Some ''iPXE'')) = Some r
          \<and> yiaddr r = ''0.0.0.0'' \<and> vendor_class r = Some ''PXEClient''
          \<and> siaddr r = ''10.0.0.5''
          \<and> bootfile r = ''http://10.0.0.5:50084/ipxe/init.ipxe'')
   \<and> client_arch (example_discover 0x0010 None) = Some 0x0010
   \<and> (0x0010 :: 16 word) \<notin> {0x0000, 0x0006, 0x0007, 0x0009, 0x000b}
   \<and> proxy_reply example_proxy (example_discover 0x0010 None) = None"
proof -
  have c: "client_arch (example_discover a uc) = Some a"
    "user_class (example_discover a uc) = uc" for a uc
    by (simp_all add: example_discover_def)
  have p: "proxy_advertise example_proxy = ''10.0.0.5''" "proxy_port example_proxy = 50084"
    by (simp_all add: example_proxy_def)
  have n: "(0x0010 :: 16 word) \<notin> {0x0000, 0x0006, 0x0007, 0x0009, 0x000b}" by simp
  have 1: "\<exists>r. proxy_reply example_proxy (example_discover 0x0007 (Some ''iPXE'')) = Some r
          \<and> yiaddr r = ''0.0.0.0'' \<and> vendor_class r = Some ''PXEClient''
          \<and> siaddr r = ''10.0.0.5''
          \<and> bootfile r = ''http://10.0.0.5:50084/ipxe/init.ipxe''"
    using proxy_only_invariant [of example_proxy "example_discover 0x0007 (Some ''iPXE'')"]
      example_offer_ipxe
    by (simp add: c p Itoa_50084)
  have 2: "proxy_reply example_proxy (example_discover 0x0010 None) = None"
    using proxy_only_invariant [of example_proxy "example_discover 0x0010 None"] n
    by (simp add: c)
  from example_offer 1 2 n show ?thesis by (simp add: c)
qed

end
